theory Spec2Isabelle
  imports Complex_Main "HOL-Library.Sublist"
begin

section \<open>The RAGAS evaluation adapter (ragas_adapter.py)\<close>

text \<open>
  A shallow embedding of \<^verbatim>\<open>RagasAdapter\<close>: its entry point \<^verbatim>\<open>evaluate\<close>, the
  isolated-thread runner \<^verbatim>\<open>_run_ragas_sync\<close>, the engine path \<^verbatim>\<open>_run_ragas_async\<close>
  and the heuristic scorer \<^verbatim>\<open>_fallback_evaluation\<close>.

  Conventions of the model:
  \<^item> a Python \<^verbatim>\<open>str\<close> is a \<open>string\<close> whose characters are the code points below 256
    (one \<open>char\<close> per code point, so \<open>length\<close> is Python's \<^verbatim>\<open>len\<close>);
  \<^item> a Python \<^verbatim>\<open>float\<close> is the real number it denotes, or one of the three special
    values; one division and one \<^verbatim>\<open>min\<close> are the only arithmetic of the source;
  \<^item> a \<^verbatim>\<open>dict\<close> is a map; dictionary equality in Python ignores insertion order;
  \<^item> an exception is a value of type \<open>exn\<close>, and a computation that may raise returns
    \<open>exn + 'a\<close> with \<open>Inl\<close> for the exception; where it also changes the process
    state, the state it leaves is returned next to the result or the exception;
  \<^item> the libraries the adapter calls (the evaluation engine, the provider clients, the
    provider detector and the parameter parser of the repository) are parameters of the
    model, collected in the record \<open>externals\<close>.
\<close>

subsection \<open>Values\<close>

datatype exn = ImportError | UnboundLocalError | ValueError | OtherError

datatype pyfloat = Num real | PosInf | NegInf | NaN

text \<open>
  A value found in the engine's result record: one that \<^verbatim>\<open>float(value)\<close> accepts,
  given as the float it yields, or one that it rejects.
\<close>

datatype pyvalue = FloatValue pyfloat | OtherValue

type_synonym scores = "string \<rightharpoonup> pyfloat"
type_synonym params = "string \<rightharpoonup> string"

subsection \<open>Strings: \<^verbatim>\<open>lower\<close>, \<^verbatim>\<open>split\<close>, \<^verbatim>\<open>in\<close>\<close>

text \<open>
  \<^verbatim>\<open>str.lower()\<close> on code points below 256: the letters A to Z and the Latin-1
  capitals U+00C0 to U+00DE (the multiplication sign U+00D7 apart) move up by 32.
\<close>

definition py_lower_char :: "char \<Rightarrow> char" where
  "py_lower_char c =
     (let n = (of_char c :: nat)
      in if (65 \<le> n \<and> n \<le> 90) \<or> (192 \<le> n \<and> n \<le> 222 \<and> n \<noteq> 215)
         then char_of (n + 32) else c)"

definition py_lower :: "string \<Rightarrow> string" where
  "py_lower s = map py_lower_char s"

text \<open>
  \<^verbatim>\<open>str.isspace\<close> on code points below 256: tab to carriage return, the four
  separators U+001C to U+001F, the space, U+0085 and U+00A0.
\<close>

definition py_isspace :: "char \<Rightarrow> bool" where
  "py_isspace c =
     (let n = (of_char c :: nat)
      in (9 \<le> n \<and> n \<le> 13) \<or> (28 \<le> n \<and> n \<le> 32) \<or> n = 133 \<or> n = 160)"

text \<open>
  \<^verbatim>\<open>s.split()\<close> with no argument: the maximal runs of non-space characters, in order;
  \<open>cur\<close> is the token being read, reversed.
\<close>

fun split_from :: "string \<Rightarrow> string \<Rightarrow> string list" where
  "split_from cur [] = (if cur = [] then [] else [rev cur])"
| "split_from cur (c # cs) =
     (if py_isspace c
      then (if cur = [] then split_from [] cs else rev cur # split_from [] cs)
      else split_from (c # cur) cs)"

definition py_split :: "string \<Rightarrow> string list" where
  "py_split s = split_from [] s"

text \<open>\<^verbatim>\<open>w in s\<close> for strings: \<open>w\<close> starts at some position of \<open>s\<close>.\<close>

fun py_contains :: "string \<Rightarrow> string \<Rightarrow> bool" where
  "py_contains [] w = (w = [])"
| "py_contains (c # cs) w = (prefix w (c # cs) \<or> py_contains cs w)"

subsection \<open>The Fallback Scorer (\<^verbatim>\<open>_fallback_evaluation\<close>, lines 330 to 353)\<close>

definition toxic_words :: "string list" where
  "toxic_words = [''hate'', ''stupid'', ''idiot'', ''kill'', ''die'', ''worst'']"

text \<open>
  A Python \<^verbatim>\<open>set\<close> built from a list is kept as the list without duplicates; its
  \<^verbatim>\<open>len\<close> is the length of that list, and the intersection keeps the members of the
  first that are in the second.
\<close>

definition py_set :: "'a list \<Rightarrow> 'a list" where
  "py_set xs = remdups xs"

definition py_intersection :: "'a list \<Rightarrow> 'a list \<Rightarrow> 'a list" where
  "py_intersection xs ys = filter (\<lambda>x. x \<in> set ys) xs"

definition fallback_score :: "string \<Rightarrow> string \<Rightarrow> string \<Rightarrow> real" where
  "fallback_score input_text output_text metric =
     (if metric = ''relevance'' then
        (let input_words = py_set (py_split (py_lower input_text));
             output_words = py_set (py_split (py_lower output_text));
             overlap = length (py_intersection input_words output_words)
         in min 1 (real overlap / real (max (length input_words) 1)))
      else if metric = ''correctness'' then
        min 1 (real (length output_text) / 100)
      else if metric = ''toxicity'' then
        (let toxic_count =
               length (filter (\<lambda>word. py_contains (py_lower output_text) word) toxic_words)
         in min 1 (real toxic_count / 3))
      else 1 / 2)"

fun fallback_loop :: "string \<Rightarrow> string \<Rightarrow> string list \<Rightarrow> scores \<Rightarrow> scores" where
  "fallback_loop input_text output_text [] sc = sc"
| "fallback_loop input_text output_text (metric # metrics) sc =
     fallback_loop input_text output_text metrics
       (sc(metric \<mapsto> Num (fallback_score input_text output_text metric)))"

definition fallback_evaluation :: "string \<Rightarrow> string \<Rightarrow> string list \<Rightarrow> scores" where
  "fallback_evaluation input_text output_text metrics =
     fallback_loop input_text output_text metrics Map.empty"

subsection \<open>Collaborators and process state\<close>

text \<open>
  A metric object of the engine, as far as the adapter looks at it: the two
  \<^verbatim>\<open>hasattr\<close> tests of line 212, the two \<^verbatim>\<open>isinstance\<close> tests of lines 220 and 222,
  and the two attributes the adapter assigns.
\<close>

type_synonym handle = nat

record metric_obj =
  is_callable :: bool
  has_name :: bool
  with_llm :: bool
  with_embeddings :: bool
  llm :: "handle option"
  embeddings :: "handle option"

text \<open>
  The four names of \<^verbatim>\<open>ragas.metrics\<close> that \<^verbatim>\<open>ragas_metric_map\<close> refers to. An imported
  module is cached by the interpreter, so every call sees the same four objects: they
  are process state, next to \<^verbatim>\<open>os.environ\<close>.
\<close>

datatype slot = AnswerRelevancy | AnswerCorrectness | AnswerSimilarity | Faithfulness

type_synonym environ = "string \<rightharpoonup> string"

record process =
  environ :: environ
  ragas_metrics :: "slot \<Rightarrow> metric_obj"

text \<open>The single record of the evaluation dataset (lines 265 to 275).\<close>

record row =
  question :: string
  answer :: string
  contexts :: "string list"
  ground_truth :: string
  user_input :: string
  response :: string
  retrieved_contexts :: "string list"
  reference :: string

text \<open>
  What the adapter calls and does not define. Each field is the outcome of one call:
  \<^item> \<open>uvloop\<close>: the test of lines 41 to 45;
  \<^item> \<open>start_worker\<close>: the executor and its worker thread of lines 50 and 51,
    \<open>Some e\<close> when they cannot be started;
  \<^item> \<open>new_event_loop\<close>: the loop set up in lines 92 to 96, \<open>Some e\<close> when that raises
    (\<^verbatim>\<open>loop.close()\<close> of line 106 is called on a loop that is not running, and returns);
  \<^item> \<open>import_ragas\<close>: the imports of lines 118 to 127, \<open>Some e\<close> when they raise;
  \<^item> \<open>detect_provider\<close>: line 130, the provider type and its configuration;
  \<^item> \<open>create_instance\<close>: lines 135 to 137, the wrapped LLM handle (the connectivity
    test of lines 141 to 146 swallows its own exception and changes nothing);
  \<^item> \<open>create_embeddings\<close>: lines 156 to 184, the wrapped embeddings handle;
  \<^item> \<open>import_metric_base\<close>: the imports of lines 208 and 209, \<open>Some e\<close> when they
    raise;
  \<^item> \<open>instantiate\<close>: the call \<^verbatim>\<open>ragas_metric()\<close> of line 214, a new object;
  \<^item> \<open>metric_init\<close>: the run configuration of line 229 and
    \<^verbatim>\<open>metric_instance.init(run_config)\<close> of line 230;
  \<^item> \<open>from_request_params\<close>: line 249, the context and its source label;
  \<^item> \<open>from_list\<close>: \<^verbatim>\<open>Dataset.from_list(dataset)\<close> of line 277, \<open>Some e\<close> when it raises;
  \<^item> \<open>ev_ragas\<close>: the engine call of lines 282 to 285 alone, an exception or the
    result object.
  The adapter uses the result object in one way, the conversion
  \<^verbatim>\<open>result.to_pandas().to_dict('records')[0]\<close> of line 297; the object is given as what
  that conversion does with it: it raises, or it yields the record.
  Exceptions are the subclasses of \<^verbatim>\<open>Exception\<close>.
\<close>

type_synonym engine_result = "exn + (string \<rightharpoonup> pyvalue)"

record externals =
  uvloop :: bool
  start_worker :: "exn option"
  new_event_loop :: "exn option"
  import_ragas :: "exn option"
  detect_provider :: "params \<Rightarrow> exn + string \<times> params"
  create_instance :: "string \<Rightarrow> params \<Rightarrow> exn + handle"
  create_embeddings :: "params \<Rightarrow> params \<Rightarrow> exn + handle"
  import_metric_base :: "exn option"
  instantiate :: "metric_obj \<Rightarrow> exn + metric_obj"
  metric_init :: "metric_obj \<Rightarrow> exn + metric_obj"
  from_request_params :: "params \<Rightarrow> exn + string option \<times> string option"
  from_list :: "row list \<Rightarrow> exn option"
  ev_ragas :: "row list \<Rightarrow> metric_obj list \<Rightarrow> exn + engine_result"

subsection \<open>The tables\<close>


text \<open>\<^verbatim>\<open>ragas_metric_map\<close> (lines 190 to 198); \<^verbatim>\<open>'toxicity'\<close> is a key whose value is \<^verbatim>\<open>None\<close>.\<close>

definition ragas_metric_map :: "string \<rightharpoonup> slot option" where
  "ragas_metric_map =
     [''relevance'' \<mapsto> Some AnswerRelevancy,
      ''correctness'' \<mapsto> Some AnswerCorrectness,
      ''similarity'' \<mapsto> Some AnswerSimilarity,
      ''faithfulness'' \<mapsto> Some Faithfulness,
      ''toxicity'' \<mapsto> None,
      ''helpfulness'' \<mapsto> Some AnswerRelevancy,
      ''clarity'' \<mapsto> Some AnswerSimilarity]"

subsection \<open>Metric binding (lines 200 to 246)\<close>

text \<open>
  A bound metric is either one of the module's own objects, named by its slot, or an
  object made during this call, which nothing else refers to.
\<close>

datatype metric_ref = Shared slot | Fresh metric_obj

definition deref :: "(slot \<Rightarrow> metric_obj) \<Rightarrow> metric_ref \<Rightarrow> metric_obj" where
  "deref mods r = (case r of Shared s \<Rightarrow> mods s | Fresh m \<Rightarrow> m)"

text \<open>Lines 220 to 226: the two attribute assignments.\<close>

definition configure :: "handle \<Rightarrow> handle option \<Rightarrow> metric_obj \<Rightarrow> metric_obj" where
  "configure llm_h emb_h m =
     (let m1 = (if with_llm m then m\<lparr>llm := Some llm_h\<rparr> else m)
      in if with_embeddings m1 \<and> emb_h \<noteq> None then m1\<lparr>embeddings := emb_h\<rparr> else m1)"

text \<open>
  Lines 205 to 232, the body of the loop for one supported metric. In the second branch
  \<^verbatim>\<open>metric_instance\<close> is the module's object itself, and the assignments change it.
\<close>

definition bind_metric ::
  "externals \<Rightarrow> handle \<Rightarrow> handle option \<Rightarrow> slot \<Rightarrow> (slot \<Rightarrow> metric_obj)
     \<Rightarrow> (exn + metric_ref) \<times> (slot \<Rightarrow> metric_obj)" where
  "bind_metric X llm_h emb_h s mods =
     (let ragas_metric = mods s
      in case import_metric_base X of
           Some e \<Rightarrow> (Inl e, mods)
         | None \<Rightarrow>
             (if is_callable ragas_metric \<and> \<not> has_name ragas_metric then
                (case instantiate X ragas_metric of
                   Inl e \<Rightarrow> (Inl e, mods)
                 | Inr metric_instance \<Rightarrow>
                     (case metric_init X (configure llm_h emb_h metric_instance) of
                        Inl e \<Rightarrow> (Inl e, mods)
                      | Inr m \<Rightarrow> (Inr (Fresh m), mods)))
              else
                (let mods1 = mods(s := configure llm_h emb_h ragas_metric)
                 in case metric_init X (mods1 s) of
                      Inl e \<Rightarrow> (Inl e, mods1)
                    | Inr m \<Rightarrow> (Inr (Shared s), mods1(s := m)))))"

text \<open>Lines 201 to 232: the loop over the requested names.\<close>

fun bind_loop ::
  "externals \<Rightarrow> handle \<Rightarrow> handle option \<Rightarrow> string list \<Rightarrow> (slot \<Rightarrow> metric_obj)
     \<Rightarrow> metric_ref list \<Rightarrow> (exn + metric_ref list) \<times> (slot \<Rightarrow> metric_obj)" where
  "bind_loop X llm_h emb_h [] mods supported_metrics = (Inr supported_metrics, mods)"
| "bind_loop X llm_h emb_h (metric # metrics) mods supported_metrics =
     (case ragas_metric_map metric of
        Some (Some s) \<Rightarrow>
          (case bind_metric X llm_h emb_h s mods of
             (Inl e, mods1) \<Rightarrow> (Inl e, mods1)
           | (Inr r, mods1) \<Rightarrow>
               bind_loop X llm_h emb_h metrics mods1 (supported_metrics @ [r]))
      | _ \<Rightarrow> bind_loop X llm_h emb_h metrics mods supported_metrics)"

text \<open>
  Lines 234 to 246, taken when no requested name has an engine metric. The names
  \<^verbatim>\<open>MetricWithLLM\<close>, \<^verbatim>\<open>MetricWithEmbeddings\<close> and \<^verbatim>\<open>RunConfig\<close> are local variables of
  \<^verbatim>\<open>_run_ragas_async\<close>, bound only by the imports of lines 208 and 209 inside the loop
  body. When the list is empty those lines have not run, so the test of line 240 raises
  \<^verbatim>\<open>UnboundLocalError\<close>; before it, line 239 may have called the default metric.
\<close>

definition default_metric_branch :: "externals \<Rightarrow> (slot \<Rightarrow> metric_obj) \<Rightarrow> exn" where
  "default_metric_branch X mods =
     (let default_metric = mods AnswerRelevancy
      in if is_callable default_metric \<and> \<not> has_name default_metric then
           (case instantiate X default_metric of
              Inl e \<Rightarrow> e
            | Inr m \<Rightarrow> UnboundLocalError)
         else UnboundLocalError)"

subsection \<open>The dataset (lines 248 to 277)\<close>

definition build_dataset :: "string \<Rightarrow> string \<Rightarrow> string list \<Rightarrow> row list" where
  "build_dataset input_text output_text ctxs =
     [] @ [\<lparr>question = input_text,
            answer = output_text,
            contexts = ctxs,
            ground_truth = output_text,
            user_input = input_text,
            response = output_text,
            retrieved_contexts = ctxs,
            reference = output_text\<rparr>]"

text \<open>
  Lines 250 to 260; \<^verbatim>\<open>x or ""\<close> is the empty string when \<open>x\<close> is \<^verbatim>\<open>None\<close> or empty.
\<close>

definition prepare_contexts :: "string option \<Rightarrow> string list" where
  "prepare_contexts ctx =
     (let context = (case ctx of None \<Rightarrow> [] | Some c \<Rightarrow> c)
      in if context \<noteq> [] then [context] else [''No specific context provided''])"

subsection \<open>\<^verbatim>\<open>_run_ragas_async\<close> (lines 113 to 328)\<close>

text \<open>
  Lines 152 to 187: the embeddings handle, made for the Azure provider only; whatever
  goes wrong there is logged and the call goes on without embeddings.
\<close>

definition create_azure_embeddings ::
  "externals \<Rightarrow> string \<Rightarrow> params \<Rightarrow> params \<Rightarrow> handle option" where
  "create_azure_embeddings X provider_type ps llm_config =
     (if provider_type = ''azure_openai'' then
        (case create_embeddings X ps llm_config of
           Inl e \<Rightarrow> None
         | Inr h \<Rightarrow> Some h)
      else None)"

text \<open>
  Lines 200 to 277: the bound metrics and the dataset. None of these lines is inside a
  \<^verbatim>\<open>try\<close>, so each exception leaves \<^verbatim>\<open>_run_ragas_async\<close>.
\<close>

definition bind_and_build ::
  "externals \<Rightarrow> process \<Rightarrow> string \<Rightarrow> string \<Rightarrow> string list \<Rightarrow> params
     \<Rightarrow> handle \<Rightarrow> handle option \<Rightarrow> (exn + row list \<times> metric_ref list) \<times> process" where
  "bind_and_build X st input_text output_text metrics ps llm_h emb_h =
     (case bind_loop X llm_h emb_h metrics (ragas_metrics st) [] of
        (Inl e, mods) \<Rightarrow> (Inl e, st\<lparr>ragas_metrics := mods\<rparr>)
      | (Inr supported_metrics, mods) \<Rightarrow>
          (let st1 = st\<lparr>ragas_metrics := mods\<rparr>
           in if supported_metrics = [] then
                (Inl (default_metric_branch X mods), st1)
              else
                (case from_request_params X ps of
                   Inl e \<Rightarrow> (Inl e, st1)
                 | Inr (ctx, context_source) \<Rightarrow>
                     (let dataset =
                            build_dataset input_text output_text (prepare_contexts ctx)
                      in case from_list X dataset of
                           Some e \<Rightarrow> (Inl e, st1)
                         | None \<Rightarrow> (Inr (dataset, supported_metrics), st1)))))"

text \<open>
  Lines 117 to 277, everything before the engine is invoked: the imports, the provider,
  the LLM handle (its failure is logged and raised again), then the steps above.
\<close>

definition prepare_evaluation ::
  "externals \<Rightarrow> process \<Rightarrow> string \<Rightarrow> string \<Rightarrow> string list \<Rightarrow> params
     \<Rightarrow> (exn + row list \<times> metric_ref list) \<times> process" where
  "prepare_evaluation X st input_text output_text metrics ps =
     (case import_ragas X of
        Some e \<Rightarrow> (Inl e, st)
      | None \<Rightarrow>
          (case detect_provider X ps of
             Inl e \<Rightarrow> (Inl e, st)
           | Inr (provider_type, llm_config) \<Rightarrow>
               (case create_instance X provider_type llm_config of
                  Inl e \<Rightarrow> (Inl e, st)
                | Inr llm_h \<Rightarrow>
                    bind_and_build X st input_text output_text metrics ps llm_h
                      (create_azure_embeddings X provider_type ps llm_config))))"

text \<open>Lines 289 to 293: the scores returned when the engine call raises.\<close>

fun neutral_loop :: "string list \<Rightarrow> scores \<Rightarrow> scores" where
  "neutral_loop [] fallback_scores = fallback_scores"
| "neutral_loop (metric # metrics) fallback_scores =
     neutral_loop metrics (fallback_scores(metric \<mapsto> Num (1 / 2)))"

text \<open>
  Lines 302 to 314: the value found for one metric name, \<open>None\<close> as in the source when
  no branch applies.
\<close>

definition result_value :: "(string \<rightharpoonup> 'v) \<Rightarrow> string \<Rightarrow> 'v option" where
  "result_value result_dict metric =
     (if metric = ''relevance'' \<and> result_dict ''answer_relevancy'' \<noteq> None then
        result_dict ''answer_relevancy''
      else if metric = ''correctness'' \<and> result_dict ''answer_correctness'' \<noteq> None then
        result_dict ''answer_correctness''
      else if metric = ''similarity'' \<and> result_dict ''answer_similarity'' \<noteq> None then
        result_dict ''answer_similarity''
      else if metric = ''faithfulness'' \<and> result_dict ''faithfulness'' \<noteq> None then
        result_dict ''faithfulness''
      else if metric = ''helpfulness'' \<and> result_dict ''answer_relevancy'' \<noteq> None then
        result_dict ''answer_relevancy''
      else if metric = ''clarity'' \<and> result_dict ''answer_similarity'' \<noteq> None then
        result_dict ''answer_similarity''
      else None)"

definition isnan :: "pyfloat \<Rightarrow> bool" where
  "isnan v = (v = NaN)"

text \<open>Lines 316 to 325; \<^verbatim>\<open>float(value)\<close> of a float is the float.\<close>

definition metric_score :: "(string \<rightharpoonup> pyfloat) \<Rightarrow> string \<Rightarrow> pyfloat" where
  "metric_score result_dict metric =
     (case result_value result_dict metric of
        Some v \<Rightarrow> (if isnan v then Num (7 / 10) else v)
      | None \<Rightarrow> Num 0)"

fun extract_loop :: "(string \<rightharpoonup> pyfloat) \<Rightarrow> string list \<Rightarrow> scores \<Rightarrow> scores" where
  "extract_loop result_dict [] sc = sc"
| "extract_loop result_dict (metric # metrics) sc =
     extract_loop result_dict metrics (sc(metric \<mapsto> metric_score result_dict metric))"

text \<open>
  Line 318 converts the value found with \<^verbatim>\<open>float(value)\<close>, which raises on a value
  that is no number. The loop of lines 301 to 325 has no handler and its scores are
  local, so the call ends with the exception of the first requested name whose value is
  rejected, whatever was assigned before.
\<close>

fun float_failure :: "(string \<rightharpoonup> pyvalue) \<Rightarrow> string list \<Rightarrow> exn option" where
  "float_failure result_dict [] = None"
| "float_failure result_dict (metric # metrics) =
     (case result_value result_dict metric of
        Some OtherValue \<Rightarrow> Some ValueError
      | _ \<Rightarrow> float_failure result_dict metrics)"

text \<open>The record as the loop sees it when no conversion fails.\<close>

definition float_columns :: "(string \<rightharpoonup> pyvalue) \<Rightarrow> (string \<rightharpoonup> pyfloat)" where
  "float_columns result_dict key =
     (case result_dict key of
        Some (FloatValue v) \<Rightarrow> Some v
      | _ \<Rightarrow> None)"

text \<open>
  Lines 279 to 328. Only the engine call of lines 282 to 285 is inside the
  \<^verbatim>\<open>try\<close> whose handler returns the neutral scores; the conversion of line 297 and the
  loop after it are outside, and their exceptions leave \<^verbatim>\<open>_run_ragas_async\<close>.
\<close>

definition run_ragas_async ::
  "externals \<Rightarrow> process \<Rightarrow> string \<Rightarrow> string \<Rightarrow> string list \<Rightarrow> params
     \<Rightarrow> (exn + scores) \<times> process" where
  "run_ragas_async X st input_text output_text metrics ps =
     (case prepare_evaluation X st input_text output_text metrics ps of
        (Inl e, st1) \<Rightarrow> (Inl e, st1)
      | (Inr (eval_dataset, supported_metrics), st1) \<Rightarrow>
          (case ev_ragas X eval_dataset (map (deref (ragas_metrics st1)) supported_metrics) of
             Inl eval_e \<Rightarrow> (Inr (neutral_loop metrics Map.empty), st1)
           | Inr (Inl e) \<Rightarrow> (Inl e, st1)
           | Inr (Inr result_dict) \<Rightarrow>
               (case float_failure result_dict metrics of
                  Some e \<Rightarrow> (Inl e, st1)
                | None \<Rightarrow>
                    (Inr (extract_loop (float_columns result_dict) metrics Map.empty),
                     st1))))"

subsection \<open>\<^verbatim>\<open>_run_ragas_sync\<close> (lines 64 to 111)\<close>

text \<open>
  \<^verbatim>\<open>os.environ[var] = v\<close>: the assignment raises \<^verbatim>\<open>ValueError\<close> when the value holds
  a NUL character, and then leaves the environment as it was.
\<close>

definition environ_setitem :: "environ \<Rightarrow> string \<Rightarrow> string \<Rightarrow> exn + environ" where
  "environ_setitem env var v =
     (if CHR 0x00 \<in> set v then Inl ValueError else Inr (env(var \<mapsto> v)))"

text \<open>
  One of the three blocks of lines 76 to 85: when the key is in the parameters, the
  variable is assigned and its name appended to \<^verbatim>\<open>env_vars_set\<close>.
\<close>

definition set_from_param ::
  "params \<Rightarrow> string \<Rightarrow> string \<Rightarrow> string list \<Rightarrow> environ \<Rightarrow> (exn + string list) \<times> environ" where
  "set_from_param ps key var env_vars_set env =
     (case ps key of
        None \<Rightarrow> (Inr env_vars_set, env)
      | Some v \<Rightarrow>
          (case environ_setitem env var v of
             Inl e \<Rightarrow> (Inl e, env)
           | Inr env1 \<Rightarrow> (Inr (env_vars_set @ [var]), env1)))"

text \<open>
  Lines 75 to 85: the three blocks in turn. An assignment that raises ends them; the
  variables assigned before it stay assigned.
\<close>

definition set_provider_env :: "params \<Rightarrow> environ \<Rightarrow> (exn + string list) \<times> environ" where
  "set_provider_env ps env0 =
     (case set_from_param ps ''langfuse.azure_api_key'' ''AZURE_OPENAI_API_KEY'' [] env0 of
        (Inl e, env1) \<Rightarrow> (Inl e, env1)
      | (Inr vars1, env1) \<Rightarrow>
          (case set_from_param ps ''langfuse.azure_endpoint'' ''AZURE_OPENAI_ENDPOINT''
                  vars1 env1 of
             (Inl e, env2) \<Rightarrow> (Inl e, env2)
           | (Inr vars2, env2) \<Rightarrow>
               set_from_param ps ''langfuse.model_version'' ''OPENAI_API_VERSION''
                 vars2 env2))"

text \<open>Lines 110 and 111: \<^verbatim>\<open>os.environ.pop(var, None)\<close> for each name of the list.\<close>

fun pop_vars :: "string list \<Rightarrow> environ \<Rightarrow> environ" where
  "pop_vars [] env = env"
| "pop_vars (var # vars) env = pop_vars vars (env(var := None))"

text \<open>
  The assignments and the set-up of the loop (lines 75 to 98) come before the
  \<^verbatim>\<open>try\<close> of line 100: an exception there leaves the function at once, and the
  \<^verbatim>\<open>finally\<close> clause that removes the variables does not run. Inside the
  \<^verbatim>\<open>try\<close>, the \<^verbatim>\<open>except\<close> clause of line 102 raises the exception again, and the
  \<^verbatim>\<open>finally\<close> clause runs on both exits.
\<close>

definition run_ragas_sync ::
  "externals \<Rightarrow> process \<Rightarrow> string \<Rightarrow> string \<Rightarrow> string list \<Rightarrow> params
     \<Rightarrow> (exn + scores) \<times> process" where
  "run_ragas_sync X st input_text output_text metrics ps =
     (case set_provider_env ps (environ st) of
        (Inl e, env1) \<Rightarrow> (Inl e, st\<lparr>environ := env1\<rparr>)
      | (Inr env_vars_set, env1) \<Rightarrow>
          (case new_event_loop X of
             Some e \<Rightarrow> (Inl e, st\<lparr>environ := env1\<rparr>)
           | None \<Rightarrow>
               (let (r, st1) =
                      run_ragas_async X (st\<lparr>environ := env1\<rparr>) input_text output_text
                        metrics ps
                in (r, st1\<lparr>environ := pop_vars env_vars_set (environ st1)\<rparr>))))"

subsection \<open>\<^verbatim>\<open>evaluate\<close> (lines 32 to 62)\<close>

text \<open>
  On the isolated path the executor and its worker are started first (lines 50 and 51);
  the worker is joined before \<^verbatim>\<open>evaluate\<close> goes on, so the call is sequential. Both
  handlers return the Fallback Scorer's result.
\<close>

definition evaluate ::
  "externals \<Rightarrow> process \<Rightarrow> string \<Rightarrow> string \<Rightarrow> string list \<Rightarrow> params
     \<Rightarrow> (exn + scores) \<times> process" where
  "evaluate X st input_text output_text metrics ps =
     (case (if uvloop X
            then (case start_worker X of
                    Some e \<Rightarrow> (Inl e, st)
                  | None \<Rightarrow> run_ragas_sync X st input_text output_text metrics ps)
            else run_ragas_async X st input_text output_text metrics ps) of
        (Inr sc, st1) \<Rightarrow> (Inr sc, st1)
      | (Inl e, st1) \<Rightarrow>
          (if e = ImportError
           then (Inr (fallback_evaluation input_text output_text metrics), st1)
           else (Inr (fallback_evaluation input_text output_text metrics), st1)))"

subsection \<open>Notions of the specification\<close>

text \<open>The set of lower-cased, whitespace-split tokens of a text.\<close>

definition token_set :: "string \<Rightarrow> string set" where
  "token_set s = set (py_split (py_lower s))"

text \<open>
  The reading of the toxicity count as a count over tokens: the entries of the fixed
  list that are tokens of the lower-cased output.
\<close>

definition toxic_token_matches :: "string \<Rightarrow> nat" where
  "toxic_token_matches output_text =
     length (filter (\<lambda>word. word \<in> set (py_split (py_lower output_text))) toxic_words)"

text \<open>The result that holds one value for every requested name.\<close>

definition uniform_scores :: "pyfloat \<Rightarrow> string list \<Rightarrow> scores" where
  "uniform_scores v metrics = (\<lambda>metric. if metric \<in> set metrics then Some v else None)"

text \<open>
  The environment variables that the isolated path derives from the parameters: one for
  each of the three recognised keys that is present.
\<close>

definition provider_vars :: "params \<Rightarrow> string set" where
  "provider_vars ps =
     (if ps ''langfuse.azure_api_key'' \<noteq> None then {''AZURE_OPENAI_API_KEY''} else {})
     \<union> (if ps ''langfuse.azure_endpoint'' \<noteq> None then {''AZURE_OPENAI_ENDPOINT''} else {})
     \<union> (if ps ''langfuse.model_version'' \<noteq> None then {''OPENAI_API_VERSION''} else {})"

text \<open>
  The isolated path gets as far as the \<^verbatim>\<open>try\<close> of line 100: the worker is started,
  and the assignments to the environment and the set-up of the loop raise nothing.
\<close>

definition isolation_ready :: "externals \<Rightarrow> params \<Rightarrow> environ \<Rightarrow> bool" where
  "isolation_ready X ps env =
     (start_worker X = None
      \<and> (case fst (set_provider_env ps env) of Inl e \<Rightarrow> False | Inr vars \<Rightarrow> True)
      \<and> new_event_loop X = None)"

subsection \<open>Sample collaborators\<close>

text \<open>
  A metric exported as a ready instance (it has a \<^verbatim>\<open>name\<close> and is not callable), as the
  engine's module-level metric objects are, and a metric exported as a class.
\<close>

definition example_instance :: metric_obj where
  "example_instance =
     \<lparr>is_callable = False, has_name = True, with_llm = True, with_embeddings = True,
      llm = None, embeddings = None\<rparr>"

definition example_class :: metric_obj where
  "example_class =
     \<lparr>is_callable = True, has_name = False, with_llm = False, with_embeddings = False,
      llm = None, embeddings = None\<rparr>"

definition example_process :: process where
  "example_process =
     \<lparr>environ = [''AZURE_OPENAI_API_KEY'' \<mapsto> ''ambient-key''],
      ragas_metrics = (\<lambda>s. example_instance)\<rparr>"

definition class_process :: process where
  "class_process = \<lparr>environ = Map.empty, ragas_metrics = (\<lambda>s. example_class)\<rparr>"

text \<open>
  An engine whose score tells whether a metric it was given carries an embeddings
  handle.
\<close>

definition probe_engine :: "row list \<Rightarrow> metric_obj list \<Rightarrow> exn + engine_result" where
  "probe_engine eval_dataset ms =
     Inr (Inr [''answer_relevancy'' \<mapsto>
            FloatValue (if filter (\<lambda>m. embeddings m \<noteq> None) ms = [] then Num 0 else Num 1)])"

definition example_externals :: externals where
  "example_externals =
     \<lparr>uvloop = True,
      start_worker = None,
      new_event_loop = None,
      import_ragas = None,
      detect_provider = (\<lambda>ps. Inr (case ps ''langfuse.azure_api_key'' of
                                       None \<Rightarrow> ''openai'' | Some k \<Rightarrow> ''azure_openai'', ps)),
      create_instance = (\<lambda>provider_type llm_config. Inr 1),
      create_embeddings = (\<lambda>ps llm_config. Inr 2),
      import_metric_base = None,
      instantiate = (\<lambda>m. Inr example_instance),
      metric_init = (\<lambda>m. Inr m),
      from_request_params = (\<lambda>ps. Inr (ps ''context'', ps ''context_source'')),
      from_list = (\<lambda>dataset. None),
      ev_ragas = probe_engine\<rparr>"

definition failing_engine :: "row list \<Rightarrow> metric_obj list \<Rightarrow> exn + engine_result" where
  "failing_engine eval_dataset ms = Inl OtherError"

definition azure_params :: params where
  "azure_params = [''langfuse.azure_api_key'' \<mapsto> ''request-key'']"


section \<open>Properties\<close>

subsection \<open>The loops as maps\<close>

lemma fallback_loop_apply:
  "fallback_loop input_text output_text metrics sc m =
     (if m \<in> set metrics then Some (Num (fallback_score input_text output_text m)) else sc m)"
  by (induction metrics arbitrary: sc) auto

lemma fallback_evaluation_apply:
  "fallback_evaluation input_text output_text metrics m =
     (if m \<in> set metrics then Some (Num (fallback_score input_text output_text m)) else None)"
  by (simp add: fallback_evaluation_def fallback_loop_apply)

lemma neutral_loop_apply:
  "neutral_loop metrics sc m = (if m \<in> set metrics then Some (Num (1 / 2)) else sc m)"
  by (induction metrics arbitrary: sc) auto

lemma extract_loop_apply:
  "extract_loop rd metrics sc m =
     (if m \<in> set metrics then Some (metric_score rd m) else sc m)"
  by (induction metrics arbitrary: sc) auto

lemma dom_fallback_evaluation: "dom (fallback_evaluation input_text output_text metrics) = set metrics"
  by (auto simp: fallback_evaluation_apply dom_def)

lemma dom_neutral_loop: "dom (neutral_loop metrics Map.empty) = set metrics"
  by (auto simp: neutral_loop_apply dom_def)

lemma dom_extract_loop: "dom (extract_loop rd metrics Map.empty) = set metrics"
  by (auto simp: extract_loop_apply dom_def)

lemma uniform_neutral: "neutral_loop metrics Map.empty = uniform_scores (Num (1 / 2)) metrics"
  by (rule ext) (simp add: neutral_loop_apply uniform_scores_def)

subsection \<open>The engine path and the environment\<close>

lemma bind_and_build_environ:
  "bind_and_build X (st\<lparr>environ := env\<rparr>) input_text output_text metrics ps llm_h emb_h =
     (case bind_and_build X st input_text output_text metrics ps llm_h emb_h of
        (r, st1) \<Rightarrow> (r, st1\<lparr>environ := env\<rparr>))"
  by (simp add: bind_and_build_def Let_def split: sum.splits prod.splits option.splits)

lemma bind_and_build_state:
  "snd (bind_and_build X st input_text output_text metrics ps llm_h emb_h) =
     st\<lparr>ragas_metrics := snd (bind_loop X llm_h emb_h metrics (ragas_metrics st) [])\<rparr>"
  by (simp add: bind_and_build_def Let_def split: sum.splits prod.splits option.splits)

lemma prepare_evaluation_environ:
  "prepare_evaluation X (st\<lparr>environ := env\<rparr>) input_text output_text metrics ps =
     (case prepare_evaluation X st input_text output_text metrics ps of
        (r, st1) \<Rightarrow> (r, st1\<lparr>environ := env\<rparr>))"
  by (simp add: prepare_evaluation_def bind_and_build_environ
           split: option.splits sum.splits prod.splits)

lemma prepare_evaluation_keeps_environ:
  "environ (snd (prepare_evaluation X st input_text output_text metrics ps)) = environ st"
  by (simp add: prepare_evaluation_def bind_and_build_state
           split: option.splits sum.splits prod.splits)

lemma run_ragas_async_environ:
  "run_ragas_async X (st\<lparr>environ := env\<rparr>) input_text output_text metrics ps =
     (case run_ragas_async X st input_text output_text metrics ps of
        (r, st1) \<Rightarrow> (r, st1\<lparr>environ := env\<rparr>))"
  by (cases "prepare_evaluation X st input_text output_text metrics ps")
     (auto simp: run_ragas_async_def prepare_evaluation_environ split: sum.splits option.splits)

lemma run_ragas_async_state:
  "snd (run_ragas_async X st input_text output_text metrics ps) =
     snd (prepare_evaluation X st input_text output_text metrics ps)"
  by (cases "prepare_evaluation X st input_text output_text metrics ps")
     (auto simp: run_ragas_async_def split: sum.splits option.splits)

text \<open>
  Once the isolated runner is inside its \<^verbatim>\<open>try\<close>, it is the engine path followed by
  the removal of the variables it set: the engine path itself neither reads nor writes
  the environment.
\<close>

lemma run_ragas_sync_ready:
  assumes "set_provider_env ps (environ st) = (Inr env_vars_set, env1)"
      and "new_event_loop X = None"
  shows "run_ragas_sync X st input_text output_text metrics ps =
     (case run_ragas_async X st input_text output_text metrics ps of
        (r, st1) \<Rightarrow> (r, st1\<lparr>environ := pop_vars env_vars_set env1\<rparr>))"
  using assms
  by (simp add: run_ragas_sync_def run_ragas_async_environ split: prod.splits)

lemma run_ragas_sync_not_ready:
  assumes "\<not> ((case fst (set_provider_env ps (environ st)) of
                 Inl e \<Rightarrow> False | Inr vars \<Rightarrow> True)
              \<and> new_event_loop X = None)"
  shows "\<exists>e. fst (run_ragas_sync X st input_text output_text metrics ps) = Inl e"
    and "ragas_metrics (snd (run_ragas_sync X st input_text output_text metrics ps)) =
           ragas_metrics st"
proof -
  obtain r env1 where s: "set_provider_env ps (environ st) = (r, env1)"
    by (cases "set_provider_env ps (environ st)")
  show "\<exists>e. fst (run_ragas_sync X st input_text output_text metrics ps) = Inl e"
    using assms s
    by (cases r; cases "new_event_loop X")
       (simp_all add: run_ragas_sync_def)
  show "ragas_metrics (snd (run_ragas_sync X st input_text output_text metrics ps)) =
           ragas_metrics st"
    using assms s
    by (cases r; cases "new_event_loop X")
       (simp_all add: run_ragas_sync_def)
qed

lemma isolation_readyD:
  assumes "isolation_ready X ps env"
  obtains env_vars_set env1 where "set_provider_env ps env = (Inr env_vars_set, env1)"
    and "new_event_loop X = None" and "start_worker X = None"
proof -
  obtain r env1 where s: "set_provider_env ps env = (r, env1)"
    by (cases "set_provider_env ps env")
  with assms show thesis
    by (cases r) (auto simp: isolation_ready_def intro: that)
qed

lemma evaluate_fst:
  "fst (evaluate X st input_text output_text metrics ps) =
     (if uvloop X \<and> \<not> isolation_ready X ps (environ st)
      then Inr (fallback_evaluation input_text output_text metrics)
      else (case fst (run_ragas_async X st input_text output_text metrics ps) of
              Inl e \<Rightarrow> Inr (fallback_evaluation input_text output_text metrics)
            | Inr sc \<Rightarrow> Inr sc))"
proof (cases "uvloop X")
  case False
  then show ?thesis
    by (simp add: evaluate_def split: prod.splits sum.splits)
next
  case True
  show ?thesis
  proof (cases "isolation_ready X ps (environ st)")
    case False
    show ?thesis
    proof (cases "start_worker X")
      case (Some e)
      with True False show ?thesis
        by (simp add: evaluate_def)
    next
      case None
      with False have "\<not> ((case fst (set_provider_env ps (environ st)) of
                 Inl e \<Rightarrow> False | Inr vars \<Rightarrow> True)
              \<and> new_event_loop X = None)"
        by (simp add: isolation_ready_def)
      from run_ragas_sync_not_ready(1) [OF this]
      obtain e where
        "fst (run_ragas_sync X st input_text output_text metrics ps) = Inl e" ..
      with True False None show ?thesis
        by (cases "run_ragas_sync X st input_text output_text metrics ps")
           (simp add: evaluate_def)
    qed
  next
    case ready: True
    then obtain env_vars_set env1 where
      s: "set_provider_env ps (environ st) = (Inr env_vars_set, env1)"
         "new_event_loop X = None"
      and w: "start_worker X = None"
      by (rule isolation_readyD)
    from run_ragas_sync_ready [OF s] True ready w show ?thesis
      by (simp add: evaluate_def split: prod.splits sum.splits)
  qed
qed

lemma evaluate_ragas_metrics:
  "ragas_metrics (snd (evaluate X st input_text output_text metrics ps)) =
     (if uvloop X \<and> \<not> isolation_ready X ps (environ st)
      then ragas_metrics st
      else ragas_metrics (snd (prepare_evaluation X st input_text output_text metrics ps)))"
proof (cases "uvloop X")
  case False
  then show ?thesis
    by (simp add: evaluate_def run_ragas_async_state [symmetric] split: prod.splits sum.splits)
next
  case True
  show ?thesis
  proof (cases "isolation_ready X ps (environ st)")
    case False
    show ?thesis
    proof (cases "start_worker X")
      case (Some e)
      with True False show ?thesis
        by (simp add: evaluate_def)
    next
      case None
      with False have "\<not> ((case fst (set_provider_env ps (environ st)) of
                 Inl e \<Rightarrow> False | Inr vars \<Rightarrow> True)
              \<and> new_event_loop X = None)"
        by (simp add: isolation_ready_def)
      from run_ragas_sync_not_ready(2) [OF this, of input_text output_text metrics]
        True False None
      show ?thesis
        by (cases "run_ragas_sync X st input_text output_text metrics ps")
           (auto simp: evaluate_def split: sum.splits)
    qed
  next
    case ready: True
    then obtain env_vars_set env1 where
      s: "set_provider_env ps (environ st) = (Inr env_vars_set, env1)"
         "new_event_loop X = None"
      and w: "start_worker X = None"
      by (rule isolation_readyD)
    from run_ragas_sync_ready [OF s] True ready w show ?thesis
      by (simp add: evaluate_def run_ragas_async_state [symmetric]
               split: prod.splits sum.splits)
  qed
qed

lemma run_ragas_async_shape:
  "run_ragas_async X st input_text output_text metrics ps = (Inr sc, st1) \<Longrightarrow>
     sc = neutral_loop metrics Map.empty \<or> (\<exists>rd. sc = extract_loop rd metrics Map.empty)"
  by (auto simp: run_ragas_async_def split: prod.splits sum.splits option.splits)

lemma run_ragas_async_import_failure:
  "import_ragas X = Some e \<Longrightarrow>
     run_ragas_async X st input_text output_text metrics ps = (Inl e, st)"
  by (simp add: run_ragas_async_def prepare_evaluation_def)

lemmas sample_defs =
  example_externals_def example_process_def example_instance_def azure_params_def
  probe_engine_def

lemmas engine_path_defs =
  prepare_evaluation_def bind_and_build_def create_azure_embeddings_def build_dataset_def
  prepare_contexts_def ragas_metric_map_def bind_metric_def configure_def deref_def Let_def

lemmas isolation_defs =
  isolation_ready_def set_provider_env_def set_from_param_def environ_setitem_def

text \<open>
  The \<^verbatim>\<open>try\<close> block is entered exactly when the worker is started, the loop is
  set up and no value assigned holds a NUL character.
\<close>

lemma isolation_ready_iff:
  "isolation_ready X ps env \<longleftrightarrow>
     start_worker X = None \<and> new_event_loop X = None
     \<and> (\<forall>v. ps ''langfuse.azure_api_key'' = Some v \<longrightarrow> CHR 0x00 \<notin> set v)
     \<and> (\<forall>v. ps ''langfuse.azure_endpoint'' = Some v \<longrightarrow> CHR 0x00 \<notin> set v)
     \<and> (\<forall>v. ps ''langfuse.model_version'' = Some v \<longrightarrow> CHR 0x00 \<notin> set v)"
  by (cases "ps ''langfuse.azure_api_key''"; cases "ps ''langfuse.azure_endpoint''";
      cases "ps ''langfuse.model_version''")
     (simp_all add: isolation_defs)

subsection \<open>The result of \<^verbatim>\<open>evaluate\<close>\<close>

text \<open>
  C1. Whatever the collaborators do (imports, provider detection, metric binding, the
  engine, its result), and on the direct path as on the isolated one, \<open>evaluate\<close>
  returns a result and raises nothing, and the keys of the result are exactly the
  requested metric names.
\<close>

theorem evaluate_total_keys:
  "\<exists>sc. fst (evaluate X st input_text output_text metrics ps) = Inr sc \<and> dom sc = set metrics"
proof (cases "uvloop X \<and> \<not> isolation_ready X ps (environ st)")
  case True
  then show ?thesis
    by (simp add: evaluate_fst dom_fallback_evaluation)
next
  case ready: False
  show ?thesis
  proof (cases "fst (run_ragas_async X st input_text output_text metrics ps)")
    case (Inl e)
    with ready show ?thesis
      by (simp add: evaluate_fst dom_fallback_evaluation)
  next
    case (Inr sc)
    then have "run_ragas_async X st input_text output_text metrics ps =
        (Inr sc, snd (run_ragas_async X st input_text output_text metrics ps))"
      by (cases "run_ragas_async X st input_text output_text metrics ps") simp
    from run_ragas_async_shape [OF this]
    consider "sc = neutral_loop metrics Map.empty"
      | rd where "sc = extract_loop rd metrics Map.empty"
      by blast
    then have "dom sc = set metrics"
      by cases (simp_all add: dom_neutral_loop dom_extract_loop)
    with Inr ready show ?thesis
      by (simp add: evaluate_fst dom_fallback_evaluation)
  qed
qed

theorem evaluate_total_keys_witness:
  "\<exists>sc. fst (evaluate example_externals example_process ''q'' ''a''
               [''relevance'', ''banana'', ''relevance''] azure_params) = Inr sc
        \<and> dom sc = {''relevance'', ''banana''}"
  using evaluate_total_keys [of example_externals example_process "''q''" "''a''"
          "[''relevance'', ''banana'', ''relevance'']" azure_params]
  by (simp add: insert_commute)

text \<open>
  C5. When the imports of the engine raise, the result of \<open>evaluate\<close> is the
  Fallback Scorer's result for the same input text, output text and metric names.
\<close>

theorem evaluate_import_failure:
  "import_ragas X = Some e \<Longrightarrow>
     fst (evaluate X st input_text output_text metrics ps) =
       Inr (fallback_evaluation input_text output_text metrics)"
  by (simp add: evaluate_fst run_ragas_async_import_failure)

theorem evaluate_import_failure_witness:
  "import_ragas (example_externals\<lparr>import_ragas := Some ImportError\<rparr>) = Some ImportError
   \<and> fst (evaluate (example_externals\<lparr>import_ragas := Some ImportError\<rparr>) example_process
            ''q'' ''a'' [''correctness'', ''banana''] Map.empty) =
       Inr (fallback_evaluation ''q'' ''a'' [''correctness'', ''banana''])"
  using evaluate_import_failure [of "example_externals\<lparr>import_ragas := Some ImportError\<rparr>"
          ImportError example_process "''q''" "''a''" "[''correctness'', ''banana'']" Map.empty]
  by simp

subsection \<open>Engine failure\<close>

text \<open>
  The engine call is reached when the steps before it succeed and, on the isolated
  path, the worker gets as far as its \<^verbatim>\<open>try\<close> block.

  C3. When the engine call is reached and raises, \<open>evaluate\<close> returns the score 0.5
  for every requested metric name and nothing else, on the direct path as on the
  isolated one. The Fallback Scorer's heuristics play no part there.
\<close>

theorem engine_failure_neutral:
  assumes "prepare_evaluation X st input_text output_text metrics ps =
             (Inr (eval_dataset, bound), st1)"
      and "ev_ragas X eval_dataset (map (deref (ragas_metrics st1)) bound) = Inl e"
      and "uvloop X \<longrightarrow> isolation_ready X ps (environ st)"
  shows "fst (evaluate X st input_text output_text metrics ps) =
           Inr (uniform_scores (Num (1 / 2)) metrics)"
proof -
  from assms(3) have c: "(uvloop X \<and> \<not> isolation_ready X ps (environ st)) = False"
    by blast
  from assms(1,2) show ?thesis
    unfolding evaluate_fst c by (simp add: run_ragas_async_def uniform_neutral)
qed

lemma failing_engine_prepared:
  "\<exists>st1. prepare_evaluation (example_externals\<lparr>ev_ragas := failing_engine\<rparr>) example_process
            ''q'' [] [''correctness'', ''toxicity''] Map.empty =
          (Inr (build_dataset ''q'' [] [''No specific context provided''],
                [Shared AnswerCorrectness]), st1)"
  by (simp add: engine_path_defs sample_defs failing_engine_def)

theorem engine_failure_neutral_witness:
  "uvloop (example_externals\<lparr>ev_ragas := failing_engine\<rparr>)
   \<and> isolation_ready (example_externals\<lparr>ev_ragas := failing_engine\<rparr>) Map.empty
        (environ example_process)
   \<and> fst (evaluate (example_externals\<lparr>ev_ragas := failing_engine\<rparr>) example_process
         ''q'' [] [''correctness'', ''toxicity''] Map.empty) =
     Inr (uniform_scores (Num (1 / 2)) [''correctness'', ''toxicity''])
   \<and> fallback_evaluation ''q'' [] [''correctness'', ''toxicity''] ''correctness'' = Some (Num 0)
   \<and> uniform_scores (Num (1 / 2)) [''correctness'', ''toxicity''] ''correctness''
       = Some (Num (1 / 2))"
proof -
  obtain st1 where
    p: "prepare_evaluation (example_externals\<lparr>ev_ragas := failing_engine\<rparr>) example_process
          ''q'' [] [''correctness'', ''toxicity''] Map.empty =
        (Inr (build_dataset ''q'' [] [''No specific context provided''],
              [Shared AnswerCorrectness]), st1)"
    using failing_engine_prepared by blast
  have e: "ev_ragas (example_externals\<lparr>ev_ragas := failing_engine\<rparr>)
             (build_dataset ''q'' [] [''No specific context provided''])
             (map (deref (ragas_metrics st1)) [Shared AnswerCorrectness]) = Inl OtherError"
    by (simp add: failing_engine_def)
  have u: "uvloop (example_externals\<lparr>ev_ragas := failing_engine\<rparr>)"
    by (simp add: example_externals_def)
  have r: "isolation_ready (example_externals\<lparr>ev_ragas := failing_engine\<rparr>) Map.empty
             (environ example_process)"
    by (simp add: isolation_defs example_externals_def)
  then have i: "uvloop (example_externals\<lparr>ev_ragas := failing_engine\<rparr>) \<longrightarrow>
      isolation_ready (example_externals\<lparr>ev_ragas := failing_engine\<rparr>) Map.empty
        (environ example_process)"
    by simp
  have f: "fallback_evaluation ''q'' [] [''correctness'', ''toxicity''] ''correctness''
          = Some (Num 0)"
    by (simp add: fallback_evaluation_apply fallback_score_def)
  have n: "uniform_scores (Num (1 / 2)) [''correctness'', ''toxicity''] ''correctness''
       = Some (Num (1 / 2))"
    by (simp add: uniform_scores_def)
  from engine_failure_neutral [OF p e i] u r f n show ?thesis
    by (intro conjI)
qed

text \<open>
  The neighbours of the engine call are another tier: an exception of the conversion of
  line 297 or of \<^verbatim>\<open>float(value)\<close> in line 318 is no engine failure, and
  \<open>evaluate\<close> answers it with the Fallback Scorer's heuristics.
\<close>

lemma conversion_failure_fallback:
  assumes "prepare_evaluation X st input_text output_text metrics ps =
             (Inr (eval_dataset, bound), st1)"
      and "ev_ragas X eval_dataset (map (deref (ragas_metrics st1)) bound) = Inr (Inl e)"
  shows "fst (evaluate X st input_text output_text metrics ps) =
           Inr (fallback_evaluation input_text output_text metrics)"
  using assms by (simp add: evaluate_fst run_ragas_async_def)

lemma float_failure_fallback:
  assumes "prepare_evaluation X st input_text output_text metrics ps =
             (Inr (eval_dataset, bound), st1)"
      and "ev_ragas X eval_dataset (map (deref (ragas_metrics st1)) bound) =
             Inr (Inr result_dict)"
      and "float_failure result_dict metrics = Some e"
  shows "fst (evaluate X st input_text output_text metrics ps) =
           Inr (fallback_evaluation input_text output_text metrics)"
  using assms by (simp add: evaluate_fst run_ragas_async_def)

lemma from_list_failure_fallback:
  assumes "from_list X = (\<lambda>dataset. Some e)"
  shows "fst (evaluate X st input_text output_text metrics ps) =
           Inr (fallback_evaluation input_text output_text metrics)"
proof -
  have "\<exists>e1. fst (bind_and_build X st input_text output_text metrics ps llm_h emb_h) = Inl e1"
    for llm_h emb_h
    using assms
    by (simp add: bind_and_build_def Let_def split: sum.splits prod.splits)
  then have "\<exists>e1. fst (prepare_evaluation X st input_text output_text metrics ps) = Inl e1"
    by (simp add: prepare_evaluation_def split: option.splits sum.splits prod.splits)
  then obtain e1 where
    "fst (prepare_evaluation X st input_text output_text metrics ps) = Inl e1" ..
  then have "fst (run_ragas_async X st input_text output_text metrics ps) = Inl e1"
    by (cases "prepare_evaluation X st input_text output_text metrics ps")
       (simp add: run_ragas_async_def)
  then show ?thesis
    by (simp add: evaluate_fst)
qed

text \<open>
  When the engine returns and nothing raises afterwards, the scores are those of the
  loop on the float columns of the record.
\<close>

lemma engine_success_scores:
  assumes "prepare_evaluation X st input_text output_text metrics ps =
             (Inr (eval_dataset, bound), st1)"
      and "ev_ragas X eval_dataset (map (deref (ragas_metrics st1)) bound) =
             Inr (Inr result_dict)"
      and "float_failure result_dict metrics = None"
      and "uvloop X \<longrightarrow> isolation_ready X ps (environ st)"
  shows "fst (evaluate X st input_text output_text metrics ps) =
           Inr (extract_loop (float_columns result_dict) metrics Map.empty)"
proof -
  from assms(4) have c: "(uvloop X \<and> \<not> isolation_ready X ps (environ st)) = False"
    by blast
  from assms(1,2,3) show ?thesis
    unfolding evaluate_fst c by (simp add: run_ragas_async_def)
qed

subsection \<open>Result normalisation\<close>




subsection \<open>The dataset handed to the engine\<close>

lemma prepare_evaluation_dataset:
  assumes "prepare_evaluation X st input_text output_text metrics ps =
             (Inr (eval_dataset, bound), st1)"
  shows "\<exists>ctxs. eval_dataset = build_dataset input_text output_text ctxs"
proof -
  have "bind_and_build X st input_text output_text metrics ps llm_h emb_h =
          (Inr (eval_dataset, bound), st1)
        \<Longrightarrow> \<exists>ctxs. eval_dataset = build_dataset input_text output_text ctxs" for llm_h emb_h
    by (auto simp: bind_and_build_def Let_def
             split: sum.splits prod.splits if_splits option.splits)
  with assms show ?thesis
    by (auto simp: prepare_evaluation_def split: option.splits sum.splits prod.splits)
qed

text \<open>
  C10. Whenever the engine path gets as far as the engine call, the dataset it passes
  has exactly one record, and in that record the fields \<open>ground_truth\<close> and
  \<open>reference\<close> are the output text itself, as are \<open>answer\<close> and \<open>response\<close>: the
  reference the engine compares the answer with is a copy of the answer.
\<close>

theorem dataset_reference_is_output:
  assumes "prepare_evaluation X st input_text output_text metrics ps =
             (Inr (eval_dataset, bound), st1)"
  shows "\<exists>r. eval_dataset = [r] \<and> ground_truth r = output_text \<and> reference r = output_text
            \<and> answer r = output_text \<and> response r = output_text"
  using prepare_evaluation_dataset [OF assms] by (auto simp: build_dataset_def)

lemma probe_engine_prepared:
  "\<exists>eval_dataset bound st1.
     prepare_evaluation example_externals example_process ''q'' ''a'' [''similarity'']
       Map.empty = (Inr (eval_dataset, bound), st1)
     \<and> eval_dataset = build_dataset ''q'' ''a'' [''No specific context provided'']"
  by (simp add: engine_path_defs sample_defs)

theorem dataset_reference_is_output_witness:
  "\<exists>eval_dataset bound st1 r.
     prepare_evaluation example_externals example_process ''q'' ''a'' [''similarity'']
       Map.empty = (Inr (eval_dataset, bound), st1)
     \<and> eval_dataset = [r] \<and> ground_truth r = ''a'' \<and> reference r = ''a''
     \<and> answer r = ''a'' \<and> response r = ''a''"
proof -
  obtain eval_dataset bound st1 where
    p: "prepare_evaluation example_externals example_process ''q'' ''a'' [''similarity'']
          Map.empty = (Inr (eval_dataset, bound), st1)"
    using probe_engine_prepared by blast
  from dataset_reference_is_output [OF p] p show ?thesis by blast
qed

subsection \<open>The Fallback Scorer\<close>

lemma py_contains_sublist: "py_contains s w \<longleftrightarrow> sublist w s"
  by (induction s) (auto simp: sublist_Cons_right)

lemma length_py_set: "length (py_set xs) = card (set xs)"
  by (simp add: py_set_def length_remdups_card_conv)

lemma length_py_intersection:
  "length (py_intersection (py_set xs) (py_set ys)) = card (set xs \<inter> set ys)"
proof -
  have "distinct (py_intersection (py_set xs) (py_set ys))"
    by (simp add: py_intersection_def py_set_def)
  moreover have "set (py_intersection (py_set xs) (py_set ys)) = set xs \<inter> set ys"
    by (auto simp: py_intersection_def py_set_def)
  ultimately show ?thesis
    using distinct_card by fastforce
qed

lemma relevance_formula:
  "fallback_score input_text output_text ''relevance'' =
     min 1 (real (card (token_set input_text \<inter> token_set output_text))
            / real (max (card (token_set input_text)) 1))"
  by (simp add: fallback_score_def Let_def length_py_set length_py_intersection token_set_def)

lemma toxic_count_card:
  "length (filter P toxic_words) = card {w \<in> set toxic_words. P w}"
proof -
  have "distinct toxic_words" by (simp add: toxic_words_def)
  then have "distinct (filter P toxic_words)" by simp
  from distinct_card [OF this] show ?thesis by simp
qed

lemmas string_defs =
  py_lower_def py_lower_char_def py_split_def py_isspace_def py_set_def py_intersection_def
  toxic_words_def Let_def

text \<open>
  C7. The fallback score for \<open>relevance\<close> is the number of tokens common to the input
  and the output, divided by the number of tokens of the input or by 1 when there is
  none, and capped at 1, the tokens of a text being the set of the whitespace-separated
  words of its lower-cased form. That is the value stored under \<open>relevance\<close> whenever
  the name is requested, and a text scores at least as high against itself as against a
  text that shares no token with it.
\<close>

theorem fallback_relevance:
  "fallback_score input_text output_text ''relevance'' =
     min 1 (real (card (token_set input_text \<inter> token_set output_text))
            / real (max (card (token_set input_text)) 1))
   \<and> (''relevance'' \<in> set metrics \<longrightarrow>
        fallback_evaluation input_text output_text metrics ''relevance'' =
          Some (Num (fallback_score input_text output_text ''relevance'')))
   \<and> (token_set input_text \<inter> token_set y = {} \<longrightarrow>
        fallback_score input_text y ''relevance''
          \<le> fallback_score input_text input_text ''relevance'')"
proof (intro conjI impI)
  show "fallback_score input_text output_text ''relevance'' =
     min 1 (real (card (token_set input_text \<inter> token_set output_text))
            / real (max (card (token_set input_text)) 1))"
    by (rule relevance_formula)
next
  assume "''relevance'' \<in> set metrics"
  then show "fallback_evaluation input_text output_text metrics ''relevance'' =
          Some (Num (fallback_score input_text output_text ''relevance''))"
    by (simp add: fallback_evaluation_apply)
next
  assume "token_set input_text \<inter> token_set y = {}"
  then have "fallback_score input_text y ''relevance'' = 0"
    by (simp add: relevance_formula)
  moreover have "0 \<le> fallback_score input_text input_text ''relevance''"
    by (simp add: relevance_formula)
  ultimately show "fallback_score input_text y ''relevance''
      \<le> fallback_score input_text input_text ''relevance''"
    by simp
qed

theorem fallback_relevance_witness:
  "fallback_evaluation ''What is the capital of France?'' ''Paris is the capital of France.''
     [''relevance'', ''correctness''] ''relevance'' = Some (Num (2 / 3))
   \<and> token_set ''Red  green'' \<inter> token_set ''BLUE'' = {}
   \<and> fallback_score ''Red  green'' ''BLUE'' ''relevance''
       \<le> fallback_score ''Red  green'' ''Red  green'' ''relevance''"
proof -
  have d: "token_set ''Red  green'' \<inter> token_set ''BLUE'' = {}"
    by (simp add: token_set_def string_defs)
  have m: "''relevance'' \<in> set [''relevance'', ''correctness'']"
    by simp
  have v: "fallback_score ''What is the capital of France?''
             ''Paris is the capital of France.'' ''relevance'' = 2 / 3"
    by (simp add: fallback_score_def string_defs)
  from fallback_relevance [of "''What is the capital of France?''"
         "''Paris is the capital of France.''" "[''relevance'', ''correctness'']"] m v
  have "fallback_evaluation ''What is the capital of France?''
          ''Paris is the capital of France.'' [''relevance'', ''correctness''] ''relevance''
        = Some (Num (2 / 3))"
    by simp
  moreover from fallback_relevance [of "''Red  green''" "''BLUE''" "[]" "''BLUE''"] d
  have "fallback_score ''Red  green'' ''BLUE'' ''relevance''
          \<le> fallback_score ''Red  green'' ''Red  green'' ''relevance''"
    by blast
  ultimately show ?thesis using d by blast
qed

text \<open>
  C8. The fallback score for \<open>correctness\<close> is the length of the output divided by
  100 and capped at 1; it is the value stored under \<open>correctness\<close> whenever the name is
  requested, it does not decrease when the output gets longer, and it is exactly 1 from
  length 100 on.
\<close>

theorem fallback_correctness:
  "fallback_score input_text output_text ''correctness'' =
     min 1 (real (length output_text) / 100)
   \<and> (''correctness'' \<in> set metrics \<longrightarrow>
        fallback_evaluation input_text output_text metrics ''correctness'' =
          Some (Num (min 1 (real (length output_text) / 100))))
   \<and> (length output_text \<le> length y \<longrightarrow>
        fallback_score input_text output_text ''correctness''
          \<le> fallback_score x y ''correctness'')
   \<and> (100 \<le> length output_text \<longrightarrow>
        fallback_score input_text output_text ''correctness'' = 1)"
proof -
  have f: "fallback_score a b ''correctness'' = min 1 (real (length b) / 100)" for a b
    by (simp add: fallback_score_def)
  have "length output_text \<le> length y \<Longrightarrow>
          min 1 (real (length output_text) / 100) \<le> min (1::real) (real (length y) / 100)"
    by (simp add: min_le_iff_disj)
  moreover have "100 \<le> length output_text \<Longrightarrow> min (1::real) (real (length output_text) / 100) = 1"
    by (simp add: min_def)
  ultimately show ?thesis
    by (simp add: f fallback_evaluation_apply)
qed

theorem fallback_correctness_witness:
  "fallback_evaluation ''q'' ''Paris'' [''correctness''] ''correctness'' = Some (Num (1 / 20))
   \<and> fallback_score ''q'' ''Paris'' ''correctness''
       \<le> fallback_score ''q'' ''Paris is the capital of France.'' ''correctness''
   \<and> fallback_score ''q'' (replicate 100 CHR ''a'') ''correctness'' = 1"
proof -
  note short = fallback_correctness [of "''q''" "''Paris''" "[''correctness'']"
      "''Paris is the capital of France.''" "''q''"]
  note long = fallback_correctness [of "''q''" "replicate 100 CHR ''a''" "[]" "[]" "[]"]
  have "fallback_evaluation ''q'' ''Paris'' [''correctness''] ''correctness''
          = Some (Num (1 / 20))"
    using short by simp
  moreover have "fallback_score ''q'' ''Paris'' ''correctness''
       \<le> fallback_score ''q'' ''Paris is the capital of France.'' ''correctness''"
    using short by simp
  moreover have "fallback_score ''q'' (replicate 100 CHR ''a'') ''correctness'' = 1"
    using long by simp
  ultimately show ?thesis by (intro conjI)
qed

text \<open>
  The toxicity count read over tokens is not what the scorer computes: in \<open>skill\<close> the
  word \<open>kill\<close> occurs, but it is not a token.
\<close>

theorem toxicity_token_count_counterexample:
  "toxic_token_matches ''skill'' = 0
   \<and> fallback_evaluation [] ''skill'' [''toxicity''] ''toxicity'' = Some (Num (1 / 3))
   \<and> fallback_evaluation [] ''skill'' [''toxicity''] ''toxicity''
       \<noteq> Some (Num (min 1 (real (toxic_token_matches ''skill'') / 3)))"
  by (simp add: fallback_evaluation_apply fallback_score_def toxic_token_matches_def
        string_defs)

text \<open>
  C9, amended. The fallback score for \<open>toxicity\<close> is n / 3 capped at 1, where n is the
  number of entries of the fixed list (hate, stupid, idiot, kill, die, worst) that occur
  as a substring of the lower-cased output, each entry counted once however often it
  occurs. That is the value stored under \<open>toxicity\<close> whenever the name is requested;
  for the output \<open>I hate this, you idiot\<close> it is 2 / 3.
\<close>

theorem fallback_toxicity_substrings:
  "fallback_score input_text output_text ''toxicity'' =
     min 1 (real (card {w \<in> set toxic_words. sublist w (py_lower output_text)}) / 3)
   \<and> (''toxicity'' \<in> set metrics \<longrightarrow>
        fallback_evaluation input_text output_text metrics ''toxicity'' =
          Some (Num (fallback_score input_text output_text ''toxicity'')))
   \<and> fallback_evaluation input_text ''I hate this, you idiot'' [''toxicity'']
       = [''toxicity'' \<mapsto> Num (2 / 3)]"
proof (intro conjI impI)
  show "fallback_score input_text output_text ''toxicity'' =
     min 1 (real (card {w \<in> set toxic_words. sublist w (py_lower output_text)}) / 3)"
    by (simp add: fallback_score_def Let_def py_contains_sublist toxic_count_card)
next
  assume "''toxicity'' \<in> set metrics"
  then show "fallback_evaluation input_text output_text metrics ''toxicity'' =
          Some (Num (fallback_score input_text output_text ''toxicity''))"
    by (simp add: fallback_evaluation_apply)
next
  have v: "fallback_score input_text ''I hate this, you idiot'' ''toxicity'' = 2 / 3"
    by (simp add: fallback_score_def string_defs)
  show "fallback_evaluation input_text ''I hate this, you idiot'' [''toxicity'']
       = [''toxicity'' \<mapsto> Num (2 / 3)]"
    by (simp only: fallback_evaluation_def fallback_loop.simps v)
qed

theorem fallback_toxicity_substrings_witness:
  "fallback_evaluation ''q'' ''STUPID idiots hate hate'' [''toxicity'', ''banana'']
     ''toxicity'' = Some (Num 1)
   \<and> fallback_evaluation ''q'' ''a diet'' [''toxicity''] ''toxicity'' = Some (Num (1 / 3))"
proof -
  have loud: "fallback_score ''q'' ''STUPID idiots hate hate'' ''toxicity'' = 1"
    by code_simp
  have diet: "fallback_score ''q'' ''a diet'' ''toxicity'' = 1 / 3"
    by code_simp
  have m: "''toxicity'' \<in> set [''toxicity'', ''banana'']" "''toxicity'' \<in> set [''toxicity'']"
    by simp_all
  from fallback_toxicity_substrings [of "''q''" "''STUPID idiots hate hate''"
            "[''toxicity'', ''banana'']", THEN conjunct2, THEN conjunct1, rule_format,
            OF m(1)]
  have "fallback_evaluation ''q'' ''STUPID idiots hate hate''
          [''toxicity'', ''banana''] ''toxicity'' = Some (Num 1)"
    by (simp only: loud)
  moreover
  from fallback_toxicity_substrings [of "''q''" "''a diet''" "[''toxicity'']",
            THEN conjunct2, THEN conjunct1, rule_format, OF m(2)]
  have "fallback_evaluation ''q'' ''a diet'' [''toxicity''] ''toxicity''
          = Some (Num (1 / 3))"
    by (simp only: diet)
  ultimately show ?thesis by (intro conjI)
qed

subsection \<open>The environment on the isolated path\<close>

lemma pop_vars_apply: "pop_vars vars env v = (if v \<in> set vars then None else env v)"
  by (induction vars arbitrary: env) auto

lemma set_from_param_ready:
  assumes "set_from_param ps key var vars env = (Inr vars1, env1)"
  shows "vars1 = vars @ (if ps key \<noteq> None then [var] else [])"
    and "env1 v = (if ps key \<noteq> None \<and> v = var then ps key else env v)"
  using assms
  by (auto simp: set_from_param_def environ_setitem_def split: option.splits if_splits)

lemma set_provider_env_ready:
  assumes "set_provider_env ps env = (Inr vars, env1)"
  shows "set vars = provider_vars ps"
    and "v \<notin> provider_vars ps \<Longrightarrow> env1 v = env v"
proof -
  obtain varsa enva where
    a: "set_from_param ps ''langfuse.azure_api_key'' ''AZURE_OPENAI_API_KEY'' [] env =
          (Inr varsa, enva)"
    using assms
    by (cases "set_from_param ps ''langfuse.azure_api_key'' ''AZURE_OPENAI_API_KEY'' [] env")
       (auto simp: set_provider_env_def split: sum.splits)
  obtain varsb envb where
    b: "set_from_param ps ''langfuse.azure_endpoint'' ''AZURE_OPENAI_ENDPOINT'' varsa enva =
          (Inr varsb, envb)"
    using assms a
    by (cases "set_from_param ps ''langfuse.azure_endpoint'' ''AZURE_OPENAI_ENDPOINT''
                 varsa enva")
       (auto simp: set_provider_env_def split: sum.splits)
  have c: "set_from_param ps ''langfuse.model_version'' ''OPENAI_API_VERSION'' varsb envb =
          (Inr vars, env1)"
    using assms a b by (simp add: set_provider_env_def)
  note va = set_from_param_ready(1) [OF a] and vb = set_from_param_ready(1) [OF b]
    and vc = set_from_param_ready(1) [OF c]
  show "set vars = provider_vars ps"
    unfolding vc vb va provider_vars_def by (simp add: Un_commute Un_left_commute)
  assume "v \<notin> provider_vars ps"
  then show "env1 v = env v"
    unfolding set_from_param_ready(2) [OF c] set_from_param_ready(2) [OF b]
      set_from_param_ready(2) [OF a] provider_vars_def
    by (simp split: if_splits)
qed

lemma evaluate_environ:
  "environ (snd (evaluate X st input_text output_text metrics ps)) =
     (if uvloop X then
        (case start_worker X of
           Some e \<Rightarrow> environ st
         | None \<Rightarrow>
             (case set_provider_env ps (environ st) of
                (Inl e, env1) \<Rightarrow> env1
              | (Inr env_vars_set, env1) \<Rightarrow>
                  (case new_event_loop X of
                     Some e \<Rightarrow> env1
                   | None \<Rightarrow> pop_vars env_vars_set env1)))
      else environ st)"
proof (cases "uvloop X")
  case False
  with prepare_evaluation_keeps_environ [of X st input_text output_text metrics ps]
  show ?thesis
    by (cases "run_ragas_async X st input_text output_text metrics ps")
       (auto simp: evaluate_def run_ragas_async_state [symmetric] split: sum.splits)
next
  case True
  obtain r env1 where s: "set_provider_env ps (environ st) = (r, env1)"
    by (cases "set_provider_env ps (environ st)")
  show ?thesis
  proof (cases "start_worker X")
    case (Some e)
    with True show ?thesis
      by (simp add: evaluate_def)
  next
    case w: None
  show ?thesis
  proof (cases r)
    case (Inl e)
    with True s w show ?thesis
      by (simp add: evaluate_def run_ragas_sync_def)
  next
    case (Inr env_vars_set)
    show ?thesis
    proof (cases "new_event_loop X")
      case (Some e)
      with True s Inr w show ?thesis
        by (simp add: evaluate_def run_ragas_sync_def)
    next
      case None
      from run_ragas_sync_ready [OF s [unfolded Inr] None, of input_text output_text metrics]
        True s Inr None w
      show ?thesis
        by (cases "run_ragas_async X st input_text output_text metrics ps")
           (auto simp: evaluate_def split: sum.splits)
    qed
  qed
  qed
qed

lemma isolated_environ:
  assumes "uvloop X" and "isolation_ready X ps (environ st)"
  shows "environ (snd (evaluate X st input_text output_text metrics ps)) v =
           (if v \<in> provider_vars ps then None else environ st v)"
proof -
  from assms(2) obtain env_vars_set env1 where
    s: "set_provider_env ps (environ st) = (Inr env_vars_set, env1)"
    and l: "new_event_loop X = None" "start_worker X = None"
    by (rule isolation_readyD)
  from assms(1) s l set_provider_env_ready(1) [OF s] set_provider_env_ready(2) [OF s, of v]
  show ?thesis
    by (simp add: evaluate_environ pop_vars_apply)
qed

text \<open>
  A variable that had a value before the call and is set from the parameters is absent
  after the call: its former value is not put back.
\<close>

theorem isolated_environment_counterexample:
  "uvloop example_externals
   \<and> environ example_process ''AZURE_OPENAI_API_KEY'' = Some ''ambient-key''
   \<and> environ (snd (evaluate example_externals example_process ''q'' ''a'' [''relevance'']
                     azure_params)) ''AZURE_OPENAI_API_KEY'' = None
   \<and> environ (snd (evaluate example_externals example_process ''q'' ''a'' [''relevance'']
                     azure_params)) \<noteq> environ example_process"
proof -
  have u: "uvloop example_externals"
    by (simp add: example_externals_def)
  have r: "isolation_ready example_externals azure_params (environ example_process)"
    by (simp add: isolation_ready_iff example_externals_def azure_params_def)
  have before: "environ example_process ''AZURE_OPENAI_API_KEY'' = Some ''ambient-key''"
    by (simp add: example_process_def)
  have "''AZURE_OPENAI_API_KEY'' \<in> provider_vars azure_params"
    by (simp add: provider_vars_def azure_params_def)
  with isolated_environ [OF u r, of "''q''" "''a''" "[''relevance'']"
         "''AZURE_OPENAI_API_KEY''"]
  have after: "environ (snd (evaluate example_externals example_process ''q'' ''a''
                  [''relevance''] azure_params)) ''AZURE_OPENAI_API_KEY'' = None"
    by simp
  from before after
  have "environ (snd (evaluate example_externals example_process ''q'' ''a'' [''relevance'']
                     azure_params)) \<noteq> environ example_process"
    by (metis option.distinct(1))
  with u before after show ?thesis by (intro conjI)
qed

text \<open>
  When an assignment raises, the function is left before its \<^verbatim>\<open>try\<close>, and nothing
  is removed: with an endpoint that holds a NUL character the key assigned before it
  stays in the environment, and with a key that holds one the environment is as before.
\<close>

lemma isolated_setup_failure:
  "environ (snd (evaluate example_externals example_process ''q'' ''a'' [''relevance'']
                  [''langfuse.azure_api_key'' \<mapsto> ''k'',
                   ''langfuse.azure_endpoint'' \<mapsto> [CHR ''a'', CHR 0x00, CHR ''b'']]))
     = [''AZURE_OPENAI_API_KEY'' \<mapsto> ''k'']"
  "environ (snd (evaluate example_externals example_process ''q'' ''a'' [''relevance'']
                  [''langfuse.azure_api_key'' \<mapsto> [CHR 0x00]]))
     = environ example_process"
  by (simp_all add: evaluate_environ set_provider_env_def set_from_param_def
        environ_setitem_def example_externals_def example_process_def)

text \<open>
  C2, amended. On the isolated path, once the worker is started, the variables are
  assigned and the loop is set up, so that the \<^verbatim>\<open>try\<close> block of line 100 is
  entered, whatever the engine path
  does then (it returns scores or raises), the environment after the call is the
  environment before it without the variables that the call set from the parameters:
  every one of them is removed, and no other variable is changed. So the environment
  is the same after the call as before whenever none of those variables had a value
  before the call.
\<close>

theorem isolated_environment_cleanup:
  assumes "uvloop X" and "isolation_ready X ps (environ st)"
  shows "environ (snd (evaluate X st input_text output_text metrics ps)) =
           environ st |` (- provider_vars ps)
         \<and> (provider_vars ps \<inter> dom (environ st) = {} \<longrightarrow>
              environ (snd (evaluate X st input_text output_text metrics ps)) = environ st)"
proof -
  have eq: "environ (snd (evaluate X st input_text output_text metrics ps)) =
              environ st |` (- provider_vars ps)"
    by (rule ext) (simp add: isolated_environ [OF assms] restrict_map_def)
  have "environ st |` (- provider_vars ps) = environ st"
    if "provider_vars ps \<inter> dom (environ st) = {}"
  proof (rule ext)
    fix v
    from that show "(environ st |` (- provider_vars ps)) v = environ st v"
      by (cases "environ st v") (auto simp: restrict_map_def)
  qed
  with eq show ?thesis by simp
qed

theorem isolated_environment_cleanup_witness:
  "uvloop (example_externals\<lparr>detect_provider := (\<lambda>ps. Inl OtherError)\<rparr>)
   \<and> isolation_ready (example_externals\<lparr>detect_provider := (\<lambda>ps. Inl OtherError)\<rparr>)
        [''langfuse.azure_endpoint'' \<mapsto> ''https://e''] (environ example_process)
   \<and> provider_vars [''langfuse.azure_endpoint'' \<mapsto> ''https://e'']
        \<inter> dom (environ example_process) = {}
   \<and> environ (snd (evaluate (example_externals\<lparr>detect_provider := (\<lambda>ps. Inl OtherError)\<rparr>)
                     example_process ''q'' ''a'' [''relevance'']
                     [''langfuse.azure_endpoint'' \<mapsto> ''https://e''])) =
       environ example_process"
proof -
  have u: "uvloop (example_externals\<lparr>detect_provider := (\<lambda>ps. Inl OtherError)\<rparr>)"
    by (simp add: example_externals_def)
  have r: "isolation_ready (example_externals\<lparr>detect_provider := (\<lambda>ps. Inl OtherError)\<rparr>)
        [''langfuse.azure_endpoint'' \<mapsto> ''https://e''] (environ example_process)"
    by (simp add: isolation_ready_iff example_externals_def)
  have d: "provider_vars [''langfuse.azure_endpoint'' \<mapsto> ''https://e'']
             \<inter> dom (environ example_process) = {}"
    by (simp add: provider_vars_def example_process_def)
  from isolated_environment_cleanup [OF u r, of "''q''" "''a''" "[''relevance'']"] d
  have "environ (snd (evaluate (example_externals\<lparr>detect_provider := (\<lambda>ps. Inl OtherError)\<rparr>)
                     example_process ''q'' ''a'' [''relevance'']
                     [''langfuse.azure_endpoint'' \<mapsto> ''https://e''])) =
       environ example_process"
    by blast
  with u r d show ?thesis by (intro conjI)
qed

subsection \<open>Metric objects across calls\<close>

lemma configure_flags:
  "is_callable (configure llm_h emb_h obj) = is_callable obj"
  "has_name (configure llm_h emb_h obj) = has_name obj"
  "with_llm (configure llm_h emb_h obj) = with_llm obj"
  "with_embeddings (configure llm_h emb_h obj) = with_embeddings obj"
  by (simp_all add: configure_def Let_def)

lemma configure_handles:
  "llm (configure llm_h emb_h obj) = (if with_llm obj then Some llm_h else llm obj)"
  "embeddings (configure llm_h emb_h obj) =
     (if with_embeddings obj \<and> emb_h \<noteq> None then emb_h else embeddings obj)"
  by (auto simp: configure_def Let_def)

lemma bind_metric_class:
  assumes "is_callable (mods t)" "\<not> has_name (mods t)"
  shows "bind_metric X llm_h emb_h t mods =
           (case import_metric_base X of
              Some e \<Rightarrow> (Inl e, mods)
            | None \<Rightarrow>
                (case instantiate X (mods t) of
                   Inl e \<Rightarrow> (Inl e, mods)
                 | Inr inst \<Rightarrow>
                     (case metric_init X (configure llm_h emb_h inst) of
                        Inl e \<Rightarrow> (Inl e, mods)
                      | Inr m \<Rightarrow> (Inr (Fresh m), mods))))"
  using assms by (simp add: bind_metric_def Let_def split: option.splits)

lemma bind_metric_instance:
  assumes "\<not> (is_callable (mods t) \<and> \<not> has_name (mods t))"
  shows "bind_metric X llm_h emb_h t mods =
           (case import_metric_base X of
              Some e \<Rightarrow> (Inl e, mods)
            | None \<Rightarrow>
                (case metric_init X (configure llm_h emb_h (mods t)) of
                   Inl e \<Rightarrow> (Inl e, mods(t := configure llm_h emb_h (mods t)))
                 | Inr m \<Rightarrow> (Inr (Shared t), mods(t := m))))"
  using assms by (auto simp: bind_metric_def Let_def split: sum.splits option.splits)

lemma bind_metric_other:
  "s \<noteq> t \<Longrightarrow> snd (bind_metric X llm_h emb_h s mods) t = mods t"
  by (auto simp: bind_metric_def Let_def split: sum.splits option.splits)

lemma bind_metric_frame:
  "is_callable (mods t) \<Longrightarrow> \<not> has_name (mods t) \<Longrightarrow>
     snd (bind_metric X llm_h emb_h s mods) t = mods t"
  by (cases "s = t") (auto simp: bind_metric_def Let_def split: sum.splits option.splits)

text \<open>
  The loop leaves a module object alone when it is a class, and when no requested name
  maps to it.
\<close>

lemma bind_loop_frame:
  assumes "(is_callable (mods t) \<and> \<not> has_name (mods t))
           \<or> (\<forall>metric \<in> set metrics. ragas_metric_map metric \<noteq> Some (Some t))"
  shows "snd (bind_loop X llm_h emb_h metrics mods acc) t = mods t"
  using assms
proof (induction metrics arbitrary: mods acc)
  case Nil
  show ?case by simp
next
  case (Cons metric metrics)
  show ?case
  proof (cases "ragas_metric_map metric")
    case None
    with Cons show ?thesis by simp
  next
    case (Some entry)
    show ?thesis
    proof (cases entry)
      case None
      with Some Cons show ?thesis by simp
    next
      case inner: (Some s)
      obtain r mods1 where b: "bind_metric X llm_h emb_h s mods = (r, mods1)"
        by (cases "bind_metric X llm_h emb_h s mods")
      have "snd (bind_metric X llm_h emb_h s mods) t = mods t"
      proof (cases "is_callable (mods t) \<and> \<not> has_name (mods t)")
        case True
        then show ?thesis by (simp add: bind_metric_frame)
      next
        case False
        with Cons.prems Some inner have "s \<noteq> t" by auto
        then show ?thesis by (rule bind_metric_other)
      qed
      with b have keep: "mods1 t = mods t" by simp
      show ?thesis
      proof (cases r)
        case (Inl e)
        with Some inner b keep show ?thesis by simp
      next
        case (Inr mr)
        from Cons.prems keep
        have "(is_callable (mods1 t) \<and> \<not> has_name (mods1 t))
           \<or> (\<forall>metric \<in> set metrics. ragas_metric_map metric \<noteq> Some (Some t))"
          by auto
        with Cons.IH [of mods1 "acc @ [mr]"] Some inner b Inr keep show ?thesis by simp
      qed
    qed
  qed
qed

lemma prepare_evaluation_frame:
  assumes "(is_callable (ragas_metrics st t) \<and> \<not> has_name (ragas_metrics st t))
           \<or> (\<forall>metric \<in> set metrics. ragas_metric_map metric \<noteq> Some (Some t))"
  shows "ragas_metrics (snd (prepare_evaluation X st input_text output_text metrics ps)) t =
           ragas_metrics st t"
  using bind_loop_frame [of "ragas_metrics st" t metrics] assms
  by (simp add: prepare_evaluation_def bind_and_build_state
           split: option.splits sum.splits prod.splits)

lemma evaluate_frame:
  assumes "(is_callable (ragas_metrics st t) \<and> \<not> has_name (ragas_metrics st t))
           \<or> (\<forall>metric \<in> set metrics. ragas_metric_map metric \<noteq> Some (Some t))"
  shows "ragas_metrics (snd (evaluate X st input_text output_text metrics ps)) t =
           ragas_metrics st t"
  using prepare_evaluation_frame [OF assms]
  by (simp add: evaluate_ragas_metrics)

text \<open>
  A call that requests one name, mapped to a ready instance, and gets as far as the
  binding leaves in the module the object that the binding made of it.
\<close>

lemma evaluate_binds_in_place:
  assumes "ragas_metric_map metric = Some (Some t)"
      and "\<not> (is_callable (ragas_metrics st t) \<and> \<not> has_name (ragas_metrics st t))"
      and "uvloop X \<longrightarrow> isolation_ready X ps (environ st)"
      and "import_ragas X = None" "import_metric_base X = None"
      and "detect_provider X ps = Inr (provider_type, llm_config)"
      and "create_instance X provider_type llm_config = Inr llm_h"
      and "emb_h = create_azure_embeddings X provider_type ps llm_config"
  shows "ragas_metrics (snd (evaluate X st input_text output_text [metric] ps)) =
           (ragas_metrics st)
             (t := (case metric_init X (configure llm_h emb_h (ragas_metrics st t)) of
                      Inl e \<Rightarrow> configure llm_h emb_h (ragas_metrics st t)
                    | Inr m \<Rightarrow> m))"
proof -
  from assms(3) have c: "(uvloop X \<and> \<not> isolation_ready X ps (environ st)) = False"
    by blast
  have "snd (bind_loop X llm_h emb_h [metric] (ragas_metrics st) []) =
          snd (bind_metric X llm_h emb_h t (ragas_metrics st))"
    using assms(1)
    by (cases "bind_metric X llm_h emb_h t (ragas_metrics st)") (auto split: sum.splits)
  also have "\<dots> = (ragas_metrics st)
             (t := (case metric_init X (configure llm_h emb_h (ragas_metrics st t)) of
                      Inl e \<Rightarrow> configure llm_h emb_h (ragas_metrics st t)
                    | Inr m \<Rightarrow> m))"
    using bind_metric_instance [of "ragas_metrics st" t X llm_h emb_h] assms(2,5)
    by (simp split: sum.splits)
  finally show ?thesis
    unfolding evaluate_ragas_metrics c
    using assms(4,6,7,8)
    by (simp add: prepare_evaluation_def bind_and_build_state)
qed

text \<open>
  A metric object that the module holds as a ready instance is changed by a call, and
  the change reaches the next call: here the second call has no embeddings handle of
  its own, and the engine still gets a metric that carries the one of the first call.
\<close>

theorem shared_metric_counterexample:
  "ragas_metrics (snd (evaluate example_externals example_process ''q'' ''a'' [''relevance'']
                         azure_params)) AnswerRelevancy
     = example_instance\<lparr>llm := Some 1, embeddings := Some 2\<rparr>
   \<and> ragas_metrics (snd (evaluate example_externals example_process ''q'' ''a''
                           [''relevance''] azure_params))
       \<noteq> ragas_metrics example_process
   \<and> fst (evaluate example_externals example_process ''q'' ''a'' [''relevance''] Map.empty)
       = Inr [''relevance'' \<mapsto> Num 0]
   \<and> fst (evaluate example_externals
             (snd (evaluate example_externals example_process ''q'' ''a'' [''relevance'']
                     azure_params))
             ''q'' ''a'' [''relevance''] Map.empty)
       = Inr [''relevance'' \<mapsto> Num 1]"
proof -
  define st1 where
    "st1 = snd (evaluate example_externals example_process ''q'' ''a'' [''relevance'']
                  azure_params)"
  have mods: "ragas_metrics st1 =
      (\<lambda>s. example_instance)(AnswerRelevancy := example_instance\<lparr>llm := Some 1, embeddings := Some 2\<rparr>)"
    unfolding st1_def
    by (simp add: evaluate_ragas_metrics isolation_defs engine_path_defs sample_defs)
  then have a: "ragas_metrics st1 AnswerRelevancy
      = example_instance\<lparr>llm := Some 1, embeddings := Some 2\<rparr>"
    by simp
  have "ragas_metrics example_process AnswerRelevancy = example_instance"
    by (simp add: example_process_def)
  moreover have "example_instance\<lparr>llm := Some 1, embeddings := Some 2\<rparr> \<noteq> example_instance"
    by (simp add: example_instance_def)
  ultimately have b: "ragas_metrics st1 \<noteq> ragas_metrics example_process"
    using a by metis
  have c: "fst (evaluate example_externals example_process ''q'' ''a'' [''relevance''] Map.empty)
       = Inr [''relevance'' \<mapsto> Num 0]"
    by (simp add: evaluate_fst isolation_defs run_ragas_async_def engine_path_defs sample_defs
          float_columns_def metric_score_def result_value_def isnan_def)
  have d: "fst (evaluate example_externals st1 ''q'' ''a'' [''relevance''] Map.empty)
       = Inr [''relevance'' \<mapsto> Num 1]"
    by (simp add: evaluate_fst isolation_defs run_ragas_async_def engine_path_defs sample_defs mods
          float_columns_def metric_score_def result_value_def isnan_def)
  from a b c d show ?thesis unfolding st1_def by (intro conjI)
qed

text \<open>
  C6, amended. A call changes no object of the engine's module except a ready instance
  that it binds.
  \<^item> A module object that is a class (callable, without a \<open>name\<close>), and one that no
    requested name maps to, is after the call what it was before.
  \<^item> Binding a class changes no module object, and succeeds only with an instance made
    in this call: the class is called, the new instance is configured with the handles
    of this call and initialised, and that instance is the bound metric.
  \<^item> Binding a ready instance, once the imports of lines 208 and 209 have succeeded,
    makes no instance: the module's own object is configured
    with the handles of this call and initialised in place, it is the bound metric, and
    it stays in the module as \<open>init\<close> returned it, or as configured when \<open>init\<close>
    raised; the other module objects are unchanged.
  \<^item> Configuring sets \<open>llm\<close> to the call's LLM handle on a metric with an LLM and
    \<open>embeddings\<close> to the call's embeddings handle on a metric with embeddings when the
    call has one, and leaves them as they were otherwise.
  \<^item> After a call that requests a single name mapped to a ready instance, and that gets
    through the imports, the provider detection and the creation of the LLM handle, the
    module holds that object so changed, for the next call to bind.
\<close>

theorem metric_binding_effects:
  "((is_callable (ragas_metrics st t) \<and> \<not> has_name (ragas_metrics st t))
      \<or> (\<forall>metric \<in> set metrics. ragas_metric_map metric \<noteq> Some (Some t))
     \<longrightarrow> ragas_metrics (snd (evaluate X st input_text output_text metrics ps)) t =
           ragas_metrics st t)
   \<and> (is_callable (mods t) \<and> \<not> has_name (mods t) \<longrightarrow>
        snd (bind_metric X llm_h emb_h t mods) = mods
        \<and> (\<forall>r. fst (bind_metric X llm_h emb_h t mods) = Inr r \<longrightarrow>
              (\<exists>inst m. instantiate X (mods t) = Inr inst
                 \<and> metric_init X (configure llm_h emb_h inst) = Inr m \<and> r = Fresh m)))
   \<and> (\<not> (is_callable (mods t) \<and> \<not> has_name (mods t)) \<and> import_metric_base X = None \<longrightarrow>
        snd (bind_metric X llm_h emb_h t mods) =
          mods(t := (case metric_init X (configure llm_h emb_h (mods t)) of
                       Inl e \<Rightarrow> configure llm_h emb_h (mods t)
                     | Inr m \<Rightarrow> m))
        \<and> (\<forall>r. fst (bind_metric X llm_h emb_h t mods) = Inr r \<longrightarrow> r = Shared t))
   \<and> llm (configure llm_h emb_h obj) = (if with_llm obj then Some llm_h else llm obj)
   \<and> embeddings (configure llm_h emb_h obj) =
       (if with_embeddings obj \<and> emb_h \<noteq> None then emb_h else embeddings obj)
   \<and> (ragas_metric_map metric = Some (Some t)
       \<and> \<not> (is_callable (ragas_metrics st t) \<and> \<not> has_name (ragas_metrics st t))
       \<and> (uvloop X \<longrightarrow> isolation_ready X ps (environ st))
       \<and> import_ragas X = None \<and> import_metric_base X = None
       \<and> detect_provider X ps = Inr (provider_type, llm_config)
       \<and> create_instance X provider_type llm_config = Inr llm_h
       \<and> emb_h = create_azure_embeddings X provider_type ps llm_config
      \<longrightarrow> ragas_metrics (snd (evaluate X st input_text output_text [metric] ps)) =
            (ragas_metrics st)
              (t := (case metric_init X (configure llm_h emb_h (ragas_metrics st t)) of
                       Inl e \<Rightarrow> configure llm_h emb_h (ragas_metrics st t)
                     | Inr m \<Rightarrow> m)))"
proof (intro conjI impI allI)
  assume "(is_callable (ragas_metrics st t) \<and> \<not> has_name (ragas_metrics st t))
      \<or> (\<forall>metric \<in> set metrics. ragas_metric_map metric \<noteq> Some (Some t))"
  then show "ragas_metrics (snd (evaluate X st input_text output_text metrics ps)) t =
           ragas_metrics st t"
    by (rule evaluate_frame)
next
  assume c: "is_callable (mods t) \<and> \<not> has_name (mods t)"
  then show "snd (bind_metric X llm_h emb_h t mods) = mods"
    by (simp add: bind_metric_class split: sum.splits option.splits)
  fix r
  assume "fst (bind_metric X llm_h emb_h t mods) = Inr r"
  with c show "\<exists>inst m. instantiate X (mods t) = Inr inst
                 \<and> metric_init X (configure llm_h emb_h inst) = Inr m \<and> r = Fresh m"
    by (auto simp: bind_metric_class split: sum.splits option.splits)
next
  assume "\<not> (is_callable (mods t) \<and> \<not> has_name (mods t)) \<and> import_metric_base X = None"
  then have i: "\<not> (is_callable (mods t) \<and> \<not> has_name (mods t))"
    and "import_metric_base X = None"
    by blast+
  note i = i this(2)
  from bind_metric_instance [of mods t X llm_h emb_h] i
  show "snd (bind_metric X llm_h emb_h t mods) =
          mods(t := (case metric_init X (configure llm_h emb_h (mods t)) of
                       Inl e \<Rightarrow> configure llm_h emb_h (mods t)
                     | Inr m \<Rightarrow> m))"
    by (simp split: sum.splits)
  fix r
  assume "fst (bind_metric X llm_h emb_h t mods) = Inr r"
  with bind_metric_instance [of mods t X llm_h emb_h] i show "r = Shared t"
    by (auto split: sum.splits)
next
  show "llm (configure llm_h emb_h obj) = (if with_llm obj then Some llm_h else llm obj)"
    by (rule configure_handles)
next
  show "embeddings (configure llm_h emb_h obj) =
       (if with_embeddings obj \<and> emb_h \<noteq> None then emb_h else embeddings obj)"
    by (rule configure_handles)
next
  assume "ragas_metric_map metric = Some (Some t)
       \<and> \<not> (is_callable (ragas_metrics st t) \<and> \<not> has_name (ragas_metrics st t))
       \<and> (uvloop X \<longrightarrow> isolation_ready X ps (environ st))
       \<and> import_ragas X = None \<and> import_metric_base X = None
       \<and> detect_provider X ps = Inr (provider_type, llm_config)
       \<and> create_instance X provider_type llm_config = Inr llm_h
       \<and> emb_h = create_azure_embeddings X provider_type ps llm_config"
  then show "ragas_metrics (snd (evaluate X st input_text output_text [metric] ps)) =
            (ragas_metrics st)
              (t := (case metric_init X (configure llm_h emb_h (ragas_metrics st t)) of
                       Inl e \<Rightarrow> configure llm_h emb_h (ragas_metrics st t)
                     | Inr m \<Rightarrow> m))"
    by (intro evaluate_binds_in_place) blast+
qed

theorem metric_binding_effects_witness:
  "is_callable (ragas_metrics class_process AnswerRelevancy)
   \<and> \<not> has_name (ragas_metrics class_process AnswerRelevancy)
   \<and> ragas_metrics (snd (evaluate example_externals class_process ''q'' ''a''
                           [''relevance'', ''helpfulness''] azure_params)) AnswerRelevancy
       = example_class
   \<and> ragas_metrics (snd (evaluate example_externals example_process ''q'' ''a''
                           [''relevance''] azure_params)) Faithfulness
       = example_instance
   \<and> ragas_metrics (snd (evaluate example_externals example_process ''q'' ''a''
                           [''relevance''] azure_params))
       = (ragas_metrics example_process)
           (AnswerRelevancy := example_instance\<lparr>llm := Some 1, embeddings := Some 2\<rparr>)"
proof -
  have h: "is_callable (ragas_metrics class_process AnswerRelevancy)"
          "\<not> has_name (ragas_metrics class_process AnswerRelevancy)"
    by (simp_all add: class_process_def example_class_def)
  have v: "ragas_metrics class_process AnswerRelevancy = example_class"
    by (simp add: class_process_def)
  from metric_binding_effects
         [where st = class_process and t = AnswerRelevancy and X = example_externals
            and input_text = "''q''" and output_text = "''a''"
            and metrics = "[''relevance'', ''helpfulness'']" and ps = azure_params,
          THEN conjunct1] h v
  have a: "ragas_metrics (snd (evaluate example_externals class_process ''q'' ''a''
                           [''relevance'', ''helpfulness''] azure_params)) AnswerRelevancy
       = example_class"
    by simp
  have "\<forall>metric \<in> set [''relevance'']. ragas_metric_map metric \<noteq> Some (Some Faithfulness)"
    by (simp add: ragas_metric_map_def)
  with metric_binding_effects
         [where st = example_process and t = Faithfulness and X = example_externals
            and input_text = "''q''" and output_text = "''a''"
            and metrics = "[''relevance'']" and ps = azure_params,
          THEN conjunct1]
  have b: "ragas_metrics (snd (evaluate example_externals example_process ''q'' ''a''
                           [''relevance''] azure_params)) Faithfulness
       = example_instance"
    by (simp add: example_process_def)
  have p: "ragas_metric_map ''relevance'' = Some (Some AnswerRelevancy)
       \<and> \<not> (is_callable (ragas_metrics example_process AnswerRelevancy)
            \<and> \<not> has_name (ragas_metrics example_process AnswerRelevancy))
       \<and> (uvloop example_externals \<longrightarrow>
            isolation_ready example_externals azure_params (environ example_process))
       \<and> import_ragas example_externals = None \<and> import_metric_base example_externals = None
       \<and> detect_provider example_externals azure_params = Inr (''azure_openai'', azure_params)
       \<and> create_instance example_externals ''azure_openai'' azure_params = Inr 1
       \<and> Some 2 = create_azure_embeddings example_externals ''azure_openai'' azure_params
                     azure_params"
    by (simp add: ragas_metric_map_def isolation_ready_iff create_azure_embeddings_def
          sample_defs)
  have i: "metric_init example_externals
             (configure 1 (Some 2) (ragas_metrics example_process AnswerRelevancy))
           = Inr (example_instance\<lparr>llm := Some 1, embeddings := Some 2\<rparr>)"
    by (simp add: configure_def Let_def sample_defs)
  from metric_binding_effects
         [where st = example_process and t = AnswerRelevancy and X = example_externals
            and input_text = "''q''" and output_text = "''a''" and ps = azure_params
            and metric = "''relevance''" and provider_type = "''azure_openai''"
            and llm_config = azure_params and llm_h = 1 and emb_h = "Some 2",
          THEN conjunct2, THEN conjunct2, THEN conjunct2, THEN conjunct2, THEN conjunct2,
          rule_format, OF p]
  have c: "ragas_metrics (snd (evaluate example_externals example_process ''q'' ''a''
                           [''relevance''] azure_params))
       = (ragas_metrics example_process)
           (AnswerRelevancy := example_instance\<lparr>llm := Some 1, embeddings := Some 2\<rparr>)"
    by (simp only: i sum.case)
  from h a b c show ?thesis by (intro conjI)
qed

end
